theory Spec2Isabelle
  imports Complex_Main "HOL-Library.Word"
begin

unbundle bit_operations_syntax

section \<open>Machine types, failures and results\<close>

text \<open>
  The embedding fixes the platform the library is built for: an LP64, little-endian
  machine with IEEE-754 binary32 \<^verbatim>\<open>float\<close>. \<^verbatim>\<open>size_t\<close> is a 64-bit word whose
  arithmetic wraps; \<^verbatim>\<open>guint\<close> (the \<^verbatim>\<open>len\<close> field of a \<^verbatim>\<open>GArray\<close>) is 32 bits wide.
  The stored bits of a \<^verbatim>\<open>float\<close> are a 32-bit word. Tensor elements are modelled by
  \<^typ>\<open>real\<close>: exact arithmetic, which agrees with binary32 wherever no rounding,
  infinity or NaN arises (all concrete data below are small integers).
\<close>

type_synonym size_t = "64 word"
type_synonym float_bits = "32 word"

text \<open>The error codes of \<^verbatim>\<open>pipevec-errors.h\<close>.\<close>

datatype PipevecError =
    PIPEVEC_ERROR_INTERNAL
  | PIPEVEC_ERROR_BAD_SHAPE
  | PIPEVEC_ERROR_DIMENSION_MISMATCH

text \<open>
  Ways in which execution leaves the defined behaviour of C: a dereference of
  \<^verbatim>\<open>NULL\<close>, an access outside an allocation, an integer division by zero, a
  float-to-integer conversion whose value does not fit, a result exposing memory
  that was never written, a pointer to no live object.
\<close>

datatype fault =
    NullDereference
  | OutOfBounds
  | DivisionByZero
  | UndefinedConversion
  | IndeterminateValue
  | InvalidPointer

text \<open>
  A call that does not complete normally either reports a \<^verbatim>\<open>GError\<close> (code and
  message) and returns \<^verbatim>\<open>FALSE\<close>/\<^verbatim>\<open>NULL\<close>, or returns \<^verbatim>\<open>NULL\<close> without setting any
  error, or faults. Results are \<open>failure + 'a\<close> with \<open>Inl\<close> the failure.
\<close>

datatype failure =
    GError PipevecError string
  | ReturnedNull
  | Crash fault

definition and_then :: "failure + 'a \<Rightarrow> ('a \<Rightarrow> failure + 'b) \<Rightarrow> failure + 'b" where
  "and_then m f = (case m of Inl e \<Rightarrow> Inl e | Inr x \<Rightarrow> f x)"

text \<open>
  A counted loop \<^verbatim>\<open>for (i = a; i < b; ++i) body\<close> over the state \<open>s\<close>: the body runs for
  each index in order and the first failure ends the loop.
\<close>

fun for_range :: "nat list \<Rightarrow> (nat \<Rightarrow> 's \<Rightarrow> failure + 's) \<Rightarrow> 's \<Rightarrow> failure + 's" where
  "for_range [] body s = Inr s"
| "for_range (i # rest) body s =
     (case body i s of Inl e \<Rightarrow> Inl e | Inr s' \<Rightarrow> for_range rest body s')"

text \<open>
  \<^verbatim>\<open>a - b\<close> computed in \<^verbatim>\<open>guint\<close>, for operands in the range of \<^verbatim>\<open>guint\<close> (the length
  of a \<^verbatim>\<open>GArray\<close> and a small constant): it wraps below zero.
\<close>

definition guint_sub :: "nat \<Rightarrow> nat \<Rightarrow> nat" where
  "guint_sub a b = (if b \<le> a then a - b else a + 2 ^ 32 - b)"

text \<open>A checked read \<^verbatim>\<open>data[i]\<close> and a checked unsigned division.\<close>

definition index_at :: "'a list \<Rightarrow> nat \<Rightarrow> failure + 'a" where
  "index_at xs i = (if i < length xs then Inr (xs ! i) else Inl (Crash OutOfBounds))"

definition size_t_div :: "size_t \<Rightarrow> size_t \<Rightarrow> failure + size_t" where
  "size_t_div a b = (if b = 0 then Inl (Crash DivisionByZero) else Inr (a div b))"

section \<open>Shape helpers\<close>

text \<open>
  \<^verbatim>\<open>array_size_t_product (data, len)\<close>: the product of the first \<open>len\<close> entries, in
  \<^verbatim>\<open>size_t\<close> arithmetic.
\<close>

definition array_size_t_product :: "size_t list \<Rightarrow> nat \<Rightarrow> failure + size_t" where
  "array_size_t_product data len =
     (if len \<le> length data then Inr (foldl (\<lambda>product d. product * d) 1 (take len data))
      else Inl (Crash OutOfBounds))"

text \<open>The decimal text \<^verbatim>\<open>printf\<close> gives for \<^verbatim>\<open>%zu\<close> and \<^verbatim>\<open>%u\<close>.\<close>

fun show_nat :: "nat \<Rightarrow> string" where
  "show_nat n =
     (if n < 10 then [''0123456789'' ! n]
      else show_nat (n div 10) @ [''0123456789'' ! (n mod 10)])"

declare show_nat.simps [simp del]

text \<open>\<^verbatim>\<open>g_strjoinv ("", strv)\<close>: the strings of a \<^verbatim>\<open>NULL\<close>-terminated vector, joined.\<close>

fun g_strjoinv :: "string option list \<Rightarrow> string" where
  "g_strjoinv [] = []"
| "g_strjoinv (None # rest) = []"
| "g_strjoinv (Some s # rest) = s @ g_strjoinv rest"

text \<open>
  \<^verbatim>\<open>format_size_t_array\<close>: a vector of \<open>len + 3\<close> string slots, all \<^verbatim>\<open>NULL\<close> at first.
  Slot 0 receives the opening bracket and slot \<open>i + 1\<close> the decimal text of the
  loop index \<open>i\<close> (the source prints \<^verbatim>\<open>i\<close>, not \<^verbatim>\<open>data[i]\<close>). The closing bracket goes
  to slot \<open>len - 2\<close> and \<^verbatim>\<open>NULL\<close> to slot \<open>len - 1\<close>; both indices are computed in
  \<^verbatim>\<open>size_t\<close>, so for \<open>len < 2\<close> the first of these stores is outside the vector.
\<close>

definition format_size_t_array :: "size_t list \<Rightarrow> failure + string" where
  "format_size_t_array data =
     (let len = length data;
          strv0 = (replicate (len + 3) None)[0 := Some ''[''];
          strv1 = fold (\<lambda>i strv. strv[i + 1 :=
                     Some (show_nat i @ (if i \<noteq> len - 1 then '', '' else []))])
                   [0..<len] strv0
      in if len < 2 then Inl (Crash OutOfBounds)
         else Inr (g_strjoinv (strv1[len - 2 := Some '']'', len - 1 := None])))"

definition apply_padding :: "size_t \<Rightarrow> size_t \<Rightarrow> size_t" where
  "apply_padding original vector_size =
     original + ((vector_size - (original mod vector_size)) mod vector_size)"

section \<open>Reading a shape array through a float lvalue\<close>

text \<open>
  \<^verbatim>\<open>g_array_index (a, float, k)\<close> is \<^verbatim>\<open>((float *) a->data)[k]\<close>. Shape arrays hold
  \<^verbatim>\<open>size_t\<close> entries, so float slot \<open>k\<close> is the low (even \<open>k\<close>) or high (odd \<open>k\<close>)
  half of entry \<open>k div 2\<close>.
\<close>

definition g_array_index_float :: "size_t list \<Rightarrow> nat \<Rightarrow> failure + float_bits" where
  "g_array_index_float a k =
     (if k div 2 < length a
      then Inr (if even k then ucast (a ! (k div 2)) else ucast (drop_bit 32 (a ! (k div 2))))
      else Inl (Crash OutOfBounds))"

definition g_array_index_float_set :: "size_t list \<Rightarrow> nat \<Rightarrow> float_bits \<Rightarrow> failure + size_t list" where
  "g_array_index_float_set a k v =
     (if k div 2 < length a
      then Inr (a[k div 2 :=
             (if even k then (a ! (k div 2) AND 0xFFFFFFFF00000000) OR ucast v
              else (a ! (k div 2) AND 0xFFFFFFFF) OR push_bit 32 (ucast v))])
      else Inl (Crash OutOfBounds))"

text \<open>
  The conversion of a binary32 value to \<^verbatim>\<open>size_t\<close> truncates toward zero and is
  undefined when the truncated value is not representable (NaN, infinities, values
  at most \<open>-1\<close> or at least \<open>2^64\<close>). Biased exponents below 127 denote magnitudes
  below one, which truncate to zero.
\<close>

definition float_to_size_t :: "float_bits \<Rightarrow> failure + size_t" where
  "float_to_size_t w =
     (let e = unat (drop_bit 23 w AND 0xFF);
          significand = (ucast (w AND 0x7FFFFF) :: size_t) OR 0x800000
      in if e = 255 then Inl (Crash UndefinedConversion)
         else if e < 127 then Inr 0
         else if bit w 31 then Inl (Crash UndefinedConversion)
         else if 191 \<le> e then Inl (Crash UndefinedConversion)
         else if e < 150 then Inr (drop_bit (150 - e) significand)
         else Inr (push_bit (e - 150) significand))"

fun msb_pos :: "nat \<Rightarrow> nat" where
  "msb_pos n = (if n < 2 then 0 else Suc (msb_pos (n div 2)))"

declare msb_pos.simps [simp del]

text \<open>
  The conversion of a \<^verbatim>\<open>size_t\<close> to binary32 rounds to the nearest value with a
  24-bit significand, ties to even.
\<close>

definition size_t_to_float :: "size_t \<Rightarrow> float_bits" where
  "size_t_to_float x =
     (let p = msb_pos (unat x);
          significand =
            (if p \<le> 23 then push_bit (23 - p) x
             else (let sh = p - 23; q = drop_bit sh x; r = take_bit sh x;
                       half = push_bit (sh - 1) (1 :: size_t)
                   in if half < r \<or> (r = half \<and> bit q 0) then q + 1 else q))
      in if x = 0 then 0
         else ucast (push_bit 23 (of_nat (127 + p) :: size_t) + (significand - 0x800000)))"

text \<open>\<^verbatim>\<open>size_t v = g_array_index (a, float, k)\<close>: the punned read followed by the conversion.\<close>

definition g_array_index_float_as_size_t :: "size_t list \<Rightarrow> nat \<Rightarrow> failure + size_t" where
  "g_array_index_float_as_size_t a k = and_then (g_array_index_float a k) float_to_size_t"

section \<open>Tensors and the object heap\<close>

text \<open>
  \<^verbatim>\<open>struct _PipevecTensorPrivate\<close>: the buffer pointer (\<open>None\<close> is \<^verbatim>\<open>NULL\<close>, \<open>Some buf\<close> a
  live allocation holding \<open>buf\<close>) and the two shape arrays. A shape array that a tensor
  holds is never written again by the library, so the arrays are kept by value.
\<close>

record PipevecTensorPrivate =
  array :: "real list option"
  shape :: "size_t list"
  padded_shape :: "size_t list"

text \<open>
  The heap holds every tensor object ever created, addressed by its position: a
  live object is \<open>Some\<close> of its private data, a finalized one \<open>None\<close>. \<^verbatim>\<open>g_object_new\<close>
  appends a fresh object, so a new address never equals an earlier one.
  \<open>mem_limit\<close> is the largest request (in bytes) that \<^verbatim>\<open>posix_memalign\<close> satisfies.
\<close>

record heap =
  objs :: "PipevecTensorPrivate option list"
  mem_limit :: nat

definition pipevec_tensor_init :: PipevecTensorPrivate where
  "pipevec_tensor_init = \<lparr>array = None, shape = [], padded_shape = []\<rparr>"

definition g_object_new :: "heap \<Rightarrow> heap \<times> nat" where
  "g_object_new h = (h\<lparr>objs := objs h @ [Some pipevec_tensor_init]\<rparr>, length (objs h))"

text \<open>Dropping the last reference finalizes the object and frees it.\<close>

definition g_object_unref :: "heap \<Rightarrow> nat \<Rightarrow> heap" where
  "g_object_unref h tensor = h\<lparr>objs := (objs h)[tensor := None]\<rparr>"

definition pipevec_tensor_get_instance_private :: "heap \<Rightarrow> nat \<Rightarrow> failure + PipevecTensorPrivate" where
  "pipevec_tensor_get_instance_private h tensor =
     (if tensor < length (objs h)
      then (case objs h ! tensor of
              None \<Rightarrow> Inl (Crash InvalidPointer)
            | Some priv \<Rightarrow> Inr priv)
      else Inl (Crash InvalidPointer))"

definition set_private :: "heap \<Rightarrow> nat \<Rightarrow> PipevecTensorPrivate \<Rightarrow> heap" where
  "set_private h tensor priv = h\<lparr>objs := (objs h)[tensor := Some priv]\<rparr>"

text \<open>The read \<^verbatim>\<open>priv->array[offset]\<close> and the write \<^verbatim>\<open>priv->array[offset] = v\<close>.\<close>

definition array_load :: "heap \<Rightarrow> nat \<Rightarrow> size_t \<Rightarrow> failure + real" where
  "array_load h tensor offset =
     and_then (pipevec_tensor_get_instance_private h tensor) (\<lambda>priv.
       case array priv of
         None \<Rightarrow> Inl (Crash NullDereference)
       | Some buf \<Rightarrow> index_at buf (unat offset))"

definition array_store :: "heap \<Rightarrow> nat \<Rightarrow> size_t \<Rightarrow> real \<Rightarrow> failure + heap" where
  "array_store h tensor offset v =
     and_then (pipevec_tensor_get_instance_private h tensor) (\<lambda>priv.
       case array priv of
         None \<Rightarrow> Inl (Crash NullDereference)
       | Some buf \<Rightarrow>
           if unat offset < length buf
           then Inr (set_private h tensor (priv\<lparr>array := Some (buf[unat offset := v])\<rparr>))
           else Inl (Crash OutOfBounds))"

text \<open>
  \<^verbatim>\<open>memcpy (priv->array, src, nbytes)\<close> with four bytes per element; a copy of zero
  bytes touches neither pointer.
\<close>

definition memcpy_to_array :: "heap \<Rightarrow> nat \<Rightarrow> real list option \<Rightarrow> size_t \<Rightarrow> failure + heap" where
  "memcpy_to_array h tensor src nbytes =
     and_then (pipevec_tensor_get_instance_private h tensor) (\<lambda>priv.
       let n = unat nbytes div 4
       in if n = 0 then Inr h
          else (case array priv of
                  None \<Rightarrow> Inl (Crash NullDereference)
                | Some d \<Rightarrow>
                    (case src of
                       None \<Rightarrow> Inl (Crash NullDereference)
                     | Some s \<Rightarrow>
                         if n \<le> length d \<and> n \<le> length s
                         then Inr (set_private h tensor (priv\<lparr>array := Some (take n s @ drop n d)\<rparr>))
                         else Inl (Crash OutOfBounds))))"

section \<open>Allocation and data transfer\<close>

text \<open>
  \<^verbatim>\<open>pipevec_tensor_alloc_shape\<close>. The buffer obtained from \<^verbatim>\<open>posix_memalign\<close> is held in
  the local variable \<^verbatim>\<open>array\<close> only; \<^verbatim>\<open>priv->array\<close> is cleared and never assigned. The
  last entry of the padded shape is read and written through a \<^verbatim>\<open>float\<close> lvalue at float
  slot \<open>len - 1\<close>.
\<close>

definition pipevec_tensor_alloc_shape :: "heap \<Rightarrow> nat \<Rightarrow> size_t list \<Rightarrow> failure + heap" where
  "pipevec_tensor_alloc_shape h tensor shape_arr =
     and_then (pipevec_tensor_get_instance_private h tensor) (\<lambda>priv.
     and_then (array_size_t_product shape_arr (length shape_arr)) (\<lambda>shape_product.
     and_then (index_at shape_arr (guint_sub (length shape_arr) 1)) (\<lambda>last_dim.
     and_then (size_t_div shape_product last_dim) (\<lambda>leading.
       if mem_limit h < unat (32 * (leading * apply_padding last_dim 8))
       then Inl (GError PIPEVEC_ERROR_INTERNAL ''Unable to allocate memory: Cannot allocate memory'')
       else
         and_then (g_array_index_float_as_size_t shape_arr (guint_sub (length shape_arr) 1)) (\<lambda>original.
         and_then (g_array_index_float_set shape_arr (guint_sub (length shape_arr) 1)
                     (size_t_to_float (apply_padding original 8))) (\<lambda>padded.
           Inr (set_private h tensor
                  \<lparr>array = None, shape = shape_arr, padded_shape = padded\<rparr>)))))))"

definition pipevec_tensor_set_data :: "heap \<Rightarrow> nat \<Rightarrow> real list \<Rightarrow> size_t list \<Rightarrow> failure + heap" where
  "pipevec_tensor_set_data h tensor contents shape_arr =
     and_then (pipevec_tensor_get_instance_private h tensor) (\<lambda>priv0.
     and_then (array_size_t_product shape_arr (length shape_arr)) (\<lambda>shape_product.
       if unat shape_product \<noteq> length contents
       then and_then (format_size_t_array shape_arr) (\<lambda>formatted_shape.
              Inl (GError PIPEVEC_ERROR_BAD_SHAPE
                (''Shape '' @ formatted_shape @ '' has product '' @ show_nat (unat shape_product)
                 @ '' which does not match array length '' @ show_nat (length shape_arr) @ ''i'')))
       else
         and_then (pipevec_tensor_alloc_shape h tensor shape_arr) (\<lambda>h1.
         and_then (pipevec_tensor_get_instance_private h1 tensor) (\<lambda>priv.
         and_then (index_at shape_arr (guint_sub (length shape_arr) 1)) (\<lambda>inner_shape_no_padding.
         and_then (size_t_div shape_product inner_shape_no_padding) (\<lambda>leading_shape.
         and_then (g_array_index_float_as_size_t (padded_shape priv)
                     (guint_sub (length (padded_shape priv)) 1)) (\<lambda>inner_shape_padding.
           for_range [0..<unat leading_shape] (\<lambda>i h2.
             and_then
               (for_range [0..<unat inner_shape_no_padding] (\<lambda>j h3.
                  and_then (index_at contents (unat (of_nat i * inner_shape_no_padding + of_nat j))) (\<lambda>v.
                    array_store h3 tensor (of_nat i * inner_shape_padding + of_nat j) v)) h2)
               (for_range [unat inner_shape_no_padding..<unat inner_shape_padding] (\<lambda>j h3.
                  array_store h3 tensor (of_nat i * inner_shape_padding + of_nat j) 0)))
             h1)))))))"

text \<open>
  \<^verbatim>\<open>pipevec_tensor_get_data\<close>. The returned array has \<^verbatim>\<open>product (shape)\<close> cells (its
  \<^verbatim>\<open>guint\<close> length truncates the product) that start out indeterminate; a result that
  would still expose an indeterminate cell is reported as a fault.
\<close>

definition pipevec_tensor_get_data :: "heap \<Rightarrow> nat \<Rightarrow> failure + real list" where
  "pipevec_tensor_get_data h tensor =
     and_then (pipevec_tensor_get_instance_private h tensor) (\<lambda>priv.
     and_then (array_size_t_product (shape priv) (length (shape priv))) (\<lambda>return_value_len.
     and_then (index_at (shape priv) (guint_sub (length (shape priv)) 1)) (\<lambda>inner_shape_no_padding.
     and_then (size_t_div return_value_len inner_shape_no_padding) (\<lambda>leading_shape.
     and_then
       (for_range [0..<unat leading_shape] (\<lambda>i.
          for_range [0..<unat inner_shape_no_padding] (\<lambda>j return_value.
            and_then (array_load h tensor
                        (of_nat i * apply_padding inner_shape_no_padding 8 + of_nat j)) (\<lambda>v.
              if unat (of_nat i * inner_shape_no_padding + of_nat j) < length return_value
              then Inr (return_value[unat (of_nat i * inner_shape_no_padding + of_nat j) := Some v])
              else Inl (Crash OutOfBounds))))
          (replicate (unat (ucast return_value_len :: 32 word)) None))
       (\<lambda>return_value.
          case those return_value of
            None \<Rightarrow> Inl (Crash IndeterminateValue)
          | Some data \<Rightarrow> Inr data)))))"

definition pipevec_tensor_reshape :: "heap \<Rightarrow> nat \<Rightarrow> size_t list \<Rightarrow> failure + heap" where
  "pipevec_tensor_reshape h tensor shape_arr =
     and_then (pipevec_tensor_get_data h tensor) (\<lambda>data.
       pipevec_tensor_set_data h tensor data shape_arr)"

definition pipevec_tensor_set_data_aligned_padded ::
    "heap \<Rightarrow> nat \<Rightarrow> size_t list \<Rightarrow> real list option \<Rightarrow> size_t \<Rightarrow> failure + heap" where
  "pipevec_tensor_set_data_aligned_padded h tensor shape_arr padded_data padded_data_length =
     and_then (pipevec_tensor_alloc_shape h tensor shape_arr) (\<lambda>h1.
       memcpy_to_array h1 tensor padded_data (4 * padded_data_length))"

text \<open>
  \<^verbatim>\<open>pipevec_tensor_copy\<close>: a new object, given the source's shape and the source's
  padded buffer. A failure releases the new object again.
\<close>

definition pipevec_tensor_copy :: "heap \<Rightarrow> nat \<Rightarrow> failure + heap \<times> nat" where
  "pipevec_tensor_copy h tensor =
     and_then (pipevec_tensor_get_instance_private h tensor) (\<lambda>priv.
     and_then (array_size_t_product (padded_shape priv) (length (padded_shape priv))) (\<lambda>padded_len.
       case g_object_new h of (h1, new_tensor) \<Rightarrow>
         and_then (pipevec_tensor_set_data_aligned_padded h1 new_tensor (shape priv) (array priv)
                     padded_len) (\<lambda>h2.
           Inr (h2, new_tensor))))"

text \<open>
  \<^verbatim>\<open>pipevec_tensor_new\<close> holds the new object in a \<^verbatim>\<open>g_autoptr\<close> variable and returns the
  pointer without \<^verbatim>\<open>g_steal_pointer\<close>: leaving the scope drops the only reference, so
  the caller receives the address of a finalized object.
\<close>

definition pipevec_tensor_new :: "heap \<Rightarrow> size_t list \<Rightarrow> real list \<Rightarrow> failure + heap \<times> nat" where
  "pipevec_tensor_new h shape_arr contents =
     (case g_object_new h of (h1, tensor) \<Rightarrow>
        and_then (pipevec_tensor_set_data h1 tensor contents shape_arr) (\<lambda>h2.
          Inr (g_object_unref h2 tensor, tensor)))"

section \<open>Coordinate map\<close>

text \<open>
  \<^verbatim>\<open>set_location\<close>: counting down over the dimensions with the running \<^verbatim>\<open>int product\<close>
  (32 bits, widened with its sign for the division, truncated after the
  multiplication). The coordinates are written as \<^verbatim>\<open>size_t\<close> values.
\<close>

definition set_location :: "size_t list \<Rightarrow> size_t \<Rightarrow> failure + size_t list" where
  "set_location shape_arr i =
     and_then
       (for_range (rev [0..<length shape_arr]) (\<lambda>j (location, product).
          if (scast (product :: 32 word) :: size_t) = 0 \<or> shape_arr ! j = 0
          then Inl (Crash DivisionByZero)
          else Inr (location[j := (i div scast product) mod (shape_arr ! j)],
                    ucast (scast product * (shape_arr ! j))))
          (replicate (length shape_arr) 0, 1))
       (\<lambda>(location, product). Inr location)"

text \<open>
  \<^verbatim>\<open>pipevec_tensor_map\<close>: the callback takes the element and the location (its
  \<^verbatim>\<open>user_data\<close> is part of the function value). The location array is created with the
  element size of a \<^verbatim>\<open>gfloat\<close> and length zero; how much room GLib gives it is not
  modelled, and the callback is passed the coordinates that \<^verbatim>\<open>set_location\<close> writes.
\<close>

definition pipevec_tensor_map ::
    "heap \<Rightarrow> nat \<Rightarrow> (real \<Rightarrow> size_t list \<Rightarrow> real) \<Rightarrow> failure + heap \<times> nat" where
  "pipevec_tensor_map h src func =
     and_then (pipevec_tensor_copy h src) (\<lambda>(h1, dst).
     and_then (pipevec_tensor_get_instance_private h1 dst) (\<lambda>priv.
     and_then (array_size_t_product (shape priv) (length (shape priv))) (\<lambda>shape_product.
     and_then (index_at (shape priv) (guint_sub (length (shape priv)) 1)) (\<lambda>inner_shape.
     and_then (size_t_div shape_product inner_shape) (\<lambda>leading_shape.
     and_then (index_at (padded_shape priv) (guint_sub (length (padded_shape priv)) 1))
       (\<lambda>inner_shape_padding.
     and_then
       (for_range [0..<unat leading_shape] (\<lambda>i.
          for_range [0..<unat inner_shape] (\<lambda>j h2.
            and_then (set_location (shape priv) (of_nat i * inner_shape + of_nat j)) (\<lambda>location.
            and_then (array_load h2 dst (of_nat i * inner_shape_padding + of_nat j)) (\<lambda>v.
              array_store h2 dst (of_nat i * inner_shape_padding + of_nat j) (func v location)))))
          h1)
       (\<lambda>h3. Inr (h3, dst))))))))"

section \<open>Elementwise and scalar operations\<close>

definition shape_subset_equal :: "size_t list \<Rightarrow> size_t list \<Rightarrow> nat \<Rightarrow> bool" where
  "shape_subset_equal lhs rhs offset_from_end =
     (if length lhs \<noteq> length rhs then False
      else if length lhs < offset_from_end then False
      else list_all (\<lambda>i. lhs ! i = rhs ! i) [0..<length lhs - offset_from_end])"

definition shapes_equal :: "size_t list \<Rightarrow> size_t list \<Rightarrow> bool" where
  "shapes_equal lhs rhs = shape_subset_equal lhs rhs 0"

definition check_shapes_elementwise :: "size_t list \<Rightarrow> size_t list \<Rightarrow> failure + unit" where
  "check_shapes_elementwise lhs rhs =
     (if \<not> shapes_equal lhs rhs
      then and_then (format_size_t_array lhs) (\<lambda>formatted_lhs_shape.
           and_then (format_size_t_array rhs) (\<lambda>formatted_rhs_shape.
             Inl (GError PIPEVEC_ERROR_BAD_SHAPE
               (''Expected shapes '' @ formatted_lhs_shape @ '' and '' @ formatted_rhs_shape
                @ '' to be equal''))))
      else Inr ())"

definition pipevec_tensor_do_elementwise_op ::
    "heap \<Rightarrow> nat \<Rightarrow> nat \<Rightarrow> (real \<Rightarrow> real \<Rightarrow> real) \<Rightarrow> failure + heap \<times> nat" where
  "pipevec_tensor_do_elementwise_op h lhs rhs func =
     and_then (pipevec_tensor_get_instance_private h lhs) (\<lambda>lhs_priv.
     and_then (pipevec_tensor_get_instance_private h rhs) (\<lambda>rhs_priv.
     and_then (check_shapes_elementwise (shape lhs_priv) (shape rhs_priv)) (\<lambda>ok.
     and_then (pipevec_tensor_copy h lhs) (\<lambda>(h1, dst).
     and_then (array_size_t_product (shape lhs_priv) (length (shape lhs_priv))) (\<lambda>shape_product.
     and_then (index_at (shape lhs_priv) (guint_sub (length (shape lhs_priv)) 1)) (\<lambda>inner_shape.
     and_then (size_t_div shape_product inner_shape) (\<lambda>leading_shape.
     and_then (index_at (padded_shape lhs_priv) (guint_sub (length (padded_shape lhs_priv)) 1))
       (\<lambda>inner_shape_padding.
     and_then
       (for_range [0..<unat leading_shape] (\<lambda>i.
          for_range [0..<unat inner_shape] (\<lambda>j h2.
            and_then (array_load h2 lhs (of_nat i * inner_shape_padding + of_nat j)) (\<lambda>a.
            and_then (array_load h2 rhs (of_nat i * inner_shape_padding + of_nat j)) (\<lambda>b.
              array_store h2 dst (of_nat i * inner_shape_padding + of_nat j) (func a b)))))
          h1)
       (\<lambda>h3. Inr (h3, dst))))))))))"

definition pipevec_tensor_do_scalar_op ::
    "heap \<Rightarrow> nat \<Rightarrow> real \<Rightarrow> (real \<Rightarrow> real \<Rightarrow> real) \<Rightarrow> failure + heap \<times> nat" where
  "pipevec_tensor_do_scalar_op h lhs rhs func =
     and_then (pipevec_tensor_get_instance_private h lhs) (\<lambda>lhs_priv.
     and_then (pipevec_tensor_copy h lhs) (\<lambda>(h1, dst).
     and_then (array_size_t_product (shape lhs_priv) (length (shape lhs_priv))) (\<lambda>shape_product.
     and_then (index_at (shape lhs_priv) (guint_sub (length (shape lhs_priv)) 1)) (\<lambda>inner_shape.
     and_then (size_t_div shape_product inner_shape) (\<lambda>leading_shape.
     and_then (index_at (padded_shape lhs_priv) (guint_sub (length (padded_shape lhs_priv)) 1))
       (\<lambda>inner_shape_padding.
     and_then
       (for_range [0..<unat leading_shape] (\<lambda>i.
          for_range [0..<unat inner_shape] (\<lambda>j h2.
            and_then (array_load h2 lhs (of_nat i * inner_shape_padding + of_nat j)) (\<lambda>a.
              array_store h2 dst (of_nat i * inner_shape_padding + of_nat j) (func a rhs))))
          h1)
       (\<lambda>h3. Inr (h3, dst))))))))"

text \<open>The four element functions, as the source writes them.\<close>

definition add :: "real \<Rightarrow> real \<Rightarrow> real" where
  "add lhs rhs = lhs + rhs"

definition sub :: "real \<Rightarrow> real \<Rightarrow> real" where
  "sub lhs rhs = lhs + rhs"

definition mul :: "real \<Rightarrow> real \<Rightarrow> real" where
  "mul lhs rhs = lhs * rhs"

definition divide :: "real \<Rightarrow> real \<Rightarrow> real" where
  "divide lhs rhs = lhs / rhs"

definition pipevec_tensor_add_tensor :: "heap \<Rightarrow> nat \<Rightarrow> nat \<Rightarrow> failure + heap \<times> nat" where
  "pipevec_tensor_add_tensor h lhs rhs = pipevec_tensor_do_elementwise_op h lhs rhs add"

definition pipevec_tensor_add_scalar :: "heap \<Rightarrow> nat \<Rightarrow> real \<Rightarrow> failure + heap \<times> nat" where
  "pipevec_tensor_add_scalar h lhs rhs = pipevec_tensor_do_scalar_op h lhs rhs add"

definition pipevec_tensor_sub_tensor :: "heap \<Rightarrow> nat \<Rightarrow> nat \<Rightarrow> failure + heap \<times> nat" where
  "pipevec_tensor_sub_tensor h lhs rhs = pipevec_tensor_do_elementwise_op h lhs rhs sub"

definition pipevec_tensor_sub_scalar :: "heap \<Rightarrow> nat \<Rightarrow> real \<Rightarrow> failure + heap \<times> nat" where
  "pipevec_tensor_sub_scalar h lhs rhs = pipevec_tensor_do_scalar_op h lhs rhs sub"

definition pipevec_tensor_multiply_tensor :: "heap \<Rightarrow> nat \<Rightarrow> nat \<Rightarrow> failure + heap \<times> nat" where
  "pipevec_tensor_multiply_tensor h lhs rhs = pipevec_tensor_do_elementwise_op h lhs rhs mul"

definition pipevec_tensor_multiply_scalar :: "heap \<Rightarrow> nat \<Rightarrow> real \<Rightarrow> failure + heap \<times> nat" where
  "pipevec_tensor_multiply_scalar h lhs rhs = pipevec_tensor_do_scalar_op h lhs rhs mul"

definition pipevec_tensor_divide_tensor :: "heap \<Rightarrow> nat \<Rightarrow> nat \<Rightarrow> failure + heap \<times> nat" where
  "pipevec_tensor_divide_tensor h lhs rhs = pipevec_tensor_do_elementwise_op h lhs rhs divide"

definition pipevec_tensor_divide_scalar :: "heap \<Rightarrow> nat \<Rightarrow> real \<Rightarrow> failure + heap \<times> nat" where
  "pipevec_tensor_divide_scalar h lhs rhs = pipevec_tensor_do_scalar_op h lhs rhs divide"

section \<open>Batched inner product\<close>

text \<open>A call that is passed \<^verbatim>\<open>NULL\<close> for its \<^verbatim>\<open>GError **\<close>: a failure it reports is lost.\<close>

definition error_discarded :: "failure + 'a \<Rightarrow> failure + 'a" where
  "error_discarded r = (case r of Inl (GError code message) \<Rightarrow> Inl ReturnedNull | _ \<Rightarrow> r)"

text \<open>
  The part of \<^verbatim>\<open>pipevec_tensor_inner_product_tensor\<close> after its two shape checks: the
  new shape is a copy of the left shape whose float slots \<open>len - 2\<close> and \<open>len - 1\<close>
  are assigned from the left and the right shape; the loop bounds and the row
  strides are read from float slots as well. An allocation failure returns
  \<^verbatim>\<open>NULL\<close> with no error set, because \<^verbatim>\<open>NULL\<close> is passed for the error.
\<close>

definition inner_product_compute ::
    "heap \<Rightarrow> nat \<Rightarrow> nat \<Rightarrow> PipevecTensorPrivate \<Rightarrow> PipevecTensorPrivate \<Rightarrow> failure + heap \<times> nat" where
  "inner_product_compute h lhs rhs lhs_priv rhs_priv =
     and_then (g_array_index_float (shape lhs_priv) (guint_sub (length (shape lhs_priv)) 2)) (\<lambda>f2.
     and_then (g_array_index_float_set (shape lhs_priv) (guint_sub (length (shape lhs_priv)) 2) f2)
       (\<lambda>new_shape2.
     and_then (g_array_index_float (shape rhs_priv) (guint_sub (length (shape rhs_priv)) 1)) (\<lambda>f1.
     and_then (g_array_index_float_set new_shape2 (guint_sub (length new_shape2) 1) f1) (\<lambda>new_shape.
       case g_object_new h of (h1, new_tensor) \<Rightarrow>
     and_then (error_discarded (pipevec_tensor_alloc_shape h1 new_tensor new_shape)) (\<lambda>h2.
     and_then (pipevec_tensor_get_instance_private h2 new_tensor) (\<lambda>new_tensor_priv.
     and_then (array_size_t_product (shape new_tensor_priv)
                 (guint_sub (length (shape new_tensor_priv)) 2)) (\<lambda>leading_batch_component_shape.
     and_then (array_size_t_product (padded_shape new_tensor_priv)
                 (length (padded_shape new_tensor_priv))) (\<lambda>padded_product.
     and_then (size_t_div padded_product leading_batch_component_shape)
       (\<lambda>trailing_batch_component_padded.
     and_then (g_array_index_float_as_size_t (shape new_tensor_priv)
                 (guint_sub (length (shape new_tensor_priv)) 2)) (\<lambda>rows.
     and_then (g_array_index_float_as_size_t (shape new_tensor_priv)
                 (guint_sub (length (shape new_tensor_priv)) 1)) (\<lambda>columns.
     and_then (g_array_index_float_as_size_t (shape lhs_priv)
                 (guint_sub (length (shape lhs_priv)) 1)) (\<lambda>dot_product_vector_length.
     and_then (g_array_index_float_as_size_t (padded_shape new_tensor_priv)
                 (guint_sub (length (padded_shape new_tensor_priv)) 1)) (\<lambda>row_length.
     and_then (g_array_index_float_as_size_t (padded_shape lhs_priv)
                 (guint_sub (length (padded_shape lhs_priv)) 1)) (\<lambda>lhs_row_length.
     and_then (g_array_index_float_as_size_t (padded_shape rhs_priv)
                 (guint_sub (length (padded_shape rhs_priv)) 1)) (\<lambda>rhs_row_length.
     and_then
       (for_range [0..<unat leading_batch_component_shape] (\<lambda>batch_index.
          for_range [0..<unat rows] (\<lambda>i.
            for_range [0..<unat columns] (\<lambda>j h3.
              and_then (array_store h3 new_tensor
                          (of_nat batch_index * trailing_batch_component_padded
                           + of_nat i * row_length + of_nat j) 0) (\<lambda>h4.
                for_range [0..<unat dot_product_vector_length] (\<lambda>k h5.
                  and_then (array_load h5 new_tensor
                              (of_nat batch_index * trailing_batch_component_padded
                               + of_nat i * row_length + of_nat j)) (\<lambda>acc.
                  and_then (array_load h5 lhs
                              (of_nat batch_index * trailing_batch_component_padded
                               + of_nat i * lhs_row_length + of_nat k)) (\<lambda>a.
                  and_then (array_load h5 rhs
                              (of_nat batch_index * trailing_batch_component_padded
                               + of_nat k * rhs_row_length + of_nat j)) (\<lambda>b.
                    array_store h5 new_tensor
                      (of_nat batch_index * trailing_batch_component_padded
                       + of_nat i * row_length + of_nat j) (acc + a * b)))))
                  h4))))
          h2)
       (\<lambda>h6. Inr (h6, new_tensor)))))))))))))))))"

definition pipevec_tensor_inner_product_tensor :: "heap \<Rightarrow> nat \<Rightarrow> nat \<Rightarrow> failure + heap \<times> nat" where
  "pipevec_tensor_inner_product_tensor h lhs rhs =
     and_then (pipevec_tensor_get_instance_private h lhs) (\<lambda>lhs_priv.
     and_then (pipevec_tensor_get_instance_private h rhs) (\<lambda>rhs_priv.
       if \<not> shape_subset_equal (shape lhs_priv) (shape rhs_priv) 2
       then and_then (format_size_t_array (shape lhs_priv)) (\<lambda>lhs_formatted_shape.
            and_then (format_size_t_array (shape rhs_priv)) (\<lambda>rhs_formatted_shape.
              Inl (GError PIPEVEC_ERROR_BAD_SHAPE
                (lhs_formatted_shape @ '' and '' @ rhs_formatted_shape
                 @ '' must have the same leading shape''))))
       else
         and_then (index_at (shape lhs_priv) (guint_sub (length (shape lhs_priv)) 1)) (\<lambda>n_lhs.
         and_then (index_at (shape rhs_priv) (guint_sub (length (shape rhs_priv)) 2)) (\<lambda>n_rhs.
           if n_lhs \<noteq> n_rhs
           then and_then (format_size_t_array (shape lhs_priv)) (\<lambda>lhs_formatted_shape.
                and_then (format_size_t_array (shape rhs_priv)) (\<lambda>rhs_formatted_shape.
                  Inl (GError PIPEVEC_ERROR_BAD_SHAPE
                    (''Arrays of shape '' @ lhs_formatted_shape @ '' and '' @ rhs_formatted_shape
                     @ '' are not compatible for inner product, '' @ show_nat (unat n_lhs)
                     @ '' != '' @ show_nat (unat n_rhs)))))
           else inner_product_compute h lhs rhs lhs_priv rhs_priv))))"

section \<open>Notions used in the statements\<close>

text \<open>The batch axes of a shape: all axes before the trailing two.\<close>

definition batch_axes :: "size_t list \<Rightarrow> size_t list" where
  "batch_axes shape_arr = take (length shape_arr - 2) shape_arr"

text \<open>Whether a result reports a \<^verbatim>\<open>GError\<close>.\<close>

definition reports_gerror :: "failure + 'a \<Rightarrow> bool" where
  "reports_gerror r = (case r of Inl (GError c m) \<Rightarrow> True | _ \<Rightarrow> False)"

text \<open>
  Two heaps that agree on every object but the one at \<open>tensor\<close>, and on the memory
  limit.
\<close>

definition others_kept :: "nat \<Rightarrow> heap \<Rightarrow> heap \<Rightarrow> bool" where
  "others_kept tensor h h' =
     ((objs h')[tensor := None] = (objs h)[tensor := None] \<and> mem_limit h' = mem_limit h)"

text \<open>
  What a caller can observe of a tensor: its shape and the result of
  \<^verbatim>\<open>pipevec_tensor_get_data\<close>. A later heap keeps the operands of an earlier one when
  every object of the earlier heap is unchanged, with the same observable state.
\<close>

definition observable_state :: "heap \<Rightarrow> nat \<Rightarrow> (failure + size_t list) \<times> (failure + real list)" where
  "observable_state h tensor =
     (and_then (pipevec_tensor_get_instance_private h tensor) (\<lambda>priv. Inr (shape priv)),
      pipevec_tensor_get_data h tensor)"

definition operands_kept :: "heap \<Rightarrow> heap \<Rightarrow> bool" where
  "operands_kept h h' =
     (\<forall>x < length (objs h). objs h' ! x = objs h ! x \<and> observable_state h' x = observable_state h x)"

text \<open>The tensor at \<open>tensor\<close> is live and its buffer pointer is \<^verbatim>\<open>NULL\<close>.\<close>

definition null_buffer :: "heap \<Rightarrow> nat \<Rightarrow> bool" where
  "null_buffer h tensor =
     (case pipevec_tensor_get_instance_private h tensor of
        Inl e \<Rightarrow> False
      | Inr priv \<Rightarrow> array priv = None)"

section \<open>Concrete heaps\<close>

text \<open>The heap before any tensor exists, and the heap holding one fresh tensor.\<close>

definition empty_heap :: heap where
  "empty_heap = \<lparr>objs = [], mem_limit = 65536\<rparr>"

definition fresh_heap :: heap where
  "fresh_heap = fst (g_object_new empty_heap)"

text \<open>
  Three tensors laid out the way the specification describes a populated tensor
  (rows padded to eight cells, padding zero): at address 0 the matrix
  \<open>[[1,2,3],[4,5,6]]\<close>, at address 1 the matrix \<open>[[7,8],[9,10],[11,12]]\<close>, at address 2
  the zero matrix of shape \<open>(2,3)\<close>.
\<close>

definition example_heap :: heap where
  "example_heap = \<lparr>objs =
     [Some \<lparr>array = Some [1, 2, 3, 0, 0, 0, 0, 0, 4, 5, 6, 0, 0, 0, 0, 0],
            shape = [2, 3], padded_shape = [2, 8]\<rparr>,
      Some \<lparr>array = Some [7, 8, 0, 0, 0, 0, 0, 0, 9, 10, 0, 0, 0, 0, 0, 0,
                          11, 12, 0, 0, 0, 0, 0, 0],
            shape = [3, 2], padded_shape = [3, 8]\<rparr>,
      Some \<lparr>array = Some [0, 0, 0, 0, 0, 0, 0, 0, 0, 0, 0, 0, 0, 0, 0, 0],
            shape = [2, 3], padded_shape = [2, 8]\<rparr>],
     mem_limit = 65536\<rparr>"

text \<open>The callback of the map example: \<open>func (v, loc) = v + loc[0] * 10 + loc[1]\<close>.\<close>

definition example_func :: "real \<Rightarrow> size_t list \<Rightarrow> real" where
  "example_func v loc = v + real (unat (loc ! 0)) * 10 + real (unat (loc ! 1))"

text \<open>
  The heap in which the tensor at address 0 was given the shape \<open>(0,3)\<close> and no
  contents, and the heap after a copy of that tensor was made at address 1.
\<close>

definition empty_tensor_heap :: heap where
  "empty_tensor_heap =
     \<lparr>objs = [Some \<lparr>array = None, shape = [0, 3], padded_shape = [0, 3]\<rparr>],
      mem_limit = 65536\<rparr>"

definition copied_heap :: heap where
  "copied_heap =
     \<lparr>objs = [Some \<lparr>array = None, shape = [0, 3], padded_shape = [0, 3]\<rparr>,
              Some \<lparr>array = None, shape = [0, 3], padded_shape = [0, 3]\<rparr>],
      mem_limit = 65536\<rparr>"

text \<open>
  Two tensors of rank three whose batch axes differ, and a tensor of rank one, each
  with the padded shape \<^verbatim>\<open>pipevec_tensor_alloc_shape\<close> stores for its shape.
\<close>

definition batch_heap :: heap where
  "batch_heap =
     \<lparr>objs = [Some \<lparr>array = None, shape = [2, 2, 3], padded_shape = [2, 0, 3]\<rparr>,
              Some \<lparr>array = None, shape = [3, 3, 2], padded_shape = [3, 0, 2]\<rparr>,
              Some \<lparr>array = None, shape = [3], padded_shape = [0]\<rparr>],
      mem_limit = 65536\<rparr>"

text \<open>
  The heap after two tensors were created and populated with no contents, the first
  with the shape \<open>(0,2,3)\<close> and the second with the shape \<open>(1,0,2)\<close>.
\<close>

definition leading_heap :: heap where
  "leading_heap =
     \<lparr>objs = [Some \<lparr>array = None, shape = [0, 2, 3], padded_shape = [0, 0, 3]\<rparr>,
              Some \<lparr>array = None, shape = [1, 0, 2], padded_shape = [1, 0, 2]\<rparr>],
      mem_limit = 65536\<rparr>"

text \<open>The heap after the inner product of the tensors at 0 and 1 of the example heap.\<close>

definition product_heap :: heap where
  "product_heap = example_heap\<lparr>objs := objs example_heap @
     [Some \<lparr>array = None, shape = [2, 3], padded_shape = [2, 3]\<rparr>]\<rparr>"

section \<open>Basic facts\<close>

lemma and_then_Inr [simp]: "and_then (Inr x) f = f x"
  by (simp add: and_then_def)

lemma and_then_Inl [simp]: "and_then (Inl e) f = Inl e"
  by (simp add: and_then_def)

lemma and_then_eq_Inr: "(and_then m f = Inr y) = (\<exists>x. m = Inr x \<and> f x = Inr y)"
  by (cases m) simp_all

lemma guint_sub_0_1 [simp]: "guint_sub 0 1 = 4294967295"
  by (simp add: guint_sub_def)

lemma guint_sub_small [simp]: "b \<le> a \<Longrightarrow> guint_sub a b = a - b"
  by (simp add: guint_sub_def)

lemma format_size_t_array_short: "length data < 2 \<Longrightarrow> format_size_t_array data = Inl (Crash OutOfBounds)"
  by (simp add: format_size_t_array_def Let_def)

lemma format_size_t_array_long: "2 \<le> length data \<Longrightarrow> \<exists>text. format_size_t_array data = Inr text"
  by (simp add: format_size_t_array_def Let_def)

lemma format_size_t_array_rank2: "format_size_t_array [a, b] = Inr '']''"
  by (simp add: format_size_t_array_def upt_rec show_nat.simps eval_nat_numeral)

lemma format_size_t_array_rank3: "format_size_t_array [a, b, c] = Inr ''[]''"
  by (simp add: format_size_t_array_def upt_rec show_nat.simps eval_nat_numeral)

lemmas eval_defs =
  and_then_def guint_sub_def index_at_def size_t_div_def array_size_t_product_def
  apply_padding_def g_array_index_float_def g_array_index_float_set_def
  float_to_size_t_def size_t_to_float_def g_array_index_float_as_size_t_def
  pipevec_tensor_init_def g_object_new_def g_object_unref_def
  pipevec_tensor_get_instance_private_def set_private_def array_load_def array_store_def
  memcpy_to_array_def pipevec_tensor_alloc_shape_def pipevec_tensor_set_data_def
  pipevec_tensor_get_data_def pipevec_tensor_reshape_def
  pipevec_tensor_set_data_aligned_padded_def pipevec_tensor_copy_def pipevec_tensor_new_def
  set_location_def pipevec_tensor_map_def shape_subset_equal_def shapes_equal_def
  check_shapes_elementwise_def pipevec_tensor_do_elementwise_op_def
  pipevec_tensor_do_scalar_op_def error_discarded_def inner_product_compute_def
  pipevec_tensor_inner_product_tensor_def
  empty_heap_def fresh_heap_def example_heap_def empty_tensor_heap_def copied_heap_def
  batch_heap_def leading_heap_def product_heap_def
  upt_rec show_nat.simps msb_pos.simps

section \<open>Operations on a tensor of rank zero\<close>

lemma private_of_new:
  "pipevec_tensor_get_instance_private (fst (g_object_new h)) (snd (g_object_new h)) = Inr pipevec_tensor_init"
  by (simp add: g_object_new_def pipevec_tensor_get_instance_private_def)

lemma alloc_shape_rank0:
  "pipevec_tensor_get_instance_private h t = Inr p \<Longrightarrow>
   pipevec_tensor_alloc_shape h t [] = Inl (Crash OutOfBounds)"
  by (simp add: pipevec_tensor_alloc_shape_def array_size_t_product_def index_at_def)

lemma get_data_rank0:
  "pipevec_tensor_get_instance_private h t = Inr p \<Longrightarrow> shape p = [] \<Longrightarrow>
   pipevec_tensor_get_data h t = Inl (Crash OutOfBounds)"
  by (simp add: pipevec_tensor_get_data_def array_size_t_product_def index_at_def)

lemma array_size_t_product_full: "\<exists>n. array_size_t_product xs (length xs) = Inr n"
  by (simp add: array_size_t_product_def)

lemma copy_rank0:
  assumes "pipevec_tensor_get_instance_private h t = Inr p" "shape p = []"
  shows "pipevec_tensor_copy h t = Inl (Crash OutOfBounds)"
proof -
  obtain n where n: "array_size_t_product (padded_shape p) (length (padded_shape p)) = Inr n"
    using array_size_t_product_full by blast
  have "pipevec_tensor_alloc_shape (fst (g_object_new h)) (snd (g_object_new h)) [] = Inl (Crash OutOfBounds)"
    by (rule alloc_shape_rank0 [OF private_of_new])
  then show ?thesis
    using assms n
    by (simp add: pipevec_tensor_copy_def pipevec_tensor_set_data_aligned_padded_def case_prod_beta)
qed

lemma reshape_rank0:
  "pipevec_tensor_get_instance_private h t = Inr p \<Longrightarrow> shape p = [] \<Longrightarrow>
   pipevec_tensor_reshape h t s = Inl (Crash OutOfBounds)"
  by (simp add: pipevec_tensor_reshape_def get_data_rank0)

lemma map_rank0:
  "pipevec_tensor_get_instance_private h t = Inr p \<Longrightarrow> shape p = [] \<Longrightarrow>
   pipevec_tensor_map h t f = Inl (Crash OutOfBounds)"
  by (simp add: pipevec_tensor_map_def copy_rank0)

lemma scalar_rank0:
  "pipevec_tensor_get_instance_private h t = Inr p \<Longrightarrow> shape p = [] \<Longrightarrow>
   pipevec_tensor_do_scalar_op h t s f = Inl (Crash OutOfBounds)"
  by (simp add: pipevec_tensor_do_scalar_op_def copy_rank0)

lemma format_cases:
  "format_size_t_array xs = Inl (Crash OutOfBounds) \<or> (\<exists>text. format_size_t_array xs = Inr text)"
  by (simp add: format_size_t_array_def Let_def)

lemma shapes_equal_Nil: "shapes_equal [] rs = (rs = [])" "shapes_equal ls [] = (ls = [])"
  by (auto simp add: shapes_equal_def shape_subset_equal_def)

lemma check_rank0_left:
  "check_shapes_elementwise [] rs = (if rs = [] then Inr () else Inl (Crash OutOfBounds))"
  by (simp add: check_shapes_elementwise_def shapes_equal_Nil format_size_t_array_short)

lemma check_rank0_right:
  "check_shapes_elementwise ls [] = (if ls = [] then Inr () else Inl (Crash OutOfBounds))"
  using format_cases [of ls]
  by (auto simp add: check_shapes_elementwise_def shapes_equal_Nil format_size_t_array_short)

lemma elementwise_rank0_left:
  assumes "pipevec_tensor_get_instance_private h t = Inr p" "shape p = []"
    "pipevec_tensor_get_instance_private h u = Inr q"
  shows "pipevec_tensor_do_elementwise_op h t u f = Inl (Crash OutOfBounds)"
  using assms by (simp add: pipevec_tensor_do_elementwise_op_def check_rank0_left copy_rank0)

lemma elementwise_rank0_right:
  assumes "pipevec_tensor_get_instance_private h t = Inr p" "shape p = []"
    "pipevec_tensor_get_instance_private h u = Inr q"
  shows "pipevec_tensor_do_elementwise_op h u t f = Inl (Crash OutOfBounds)"
  using assms by (simp add: pipevec_tensor_do_elementwise_op_def check_rank0_right copy_rank0)

lemma subset_rank0: "\<not> shape_subset_equal [] rs 2" "\<not> shape_subset_equal ls [] 2"
  by (auto simp add: shape_subset_equal_def)

lemma inner_rank0_left:
  assumes "pipevec_tensor_get_instance_private h t = Inr p" "shape p = []"
    "pipevec_tensor_get_instance_private h u = Inr q"
  shows "pipevec_tensor_inner_product_tensor h t u = Inl (Crash OutOfBounds)"
  using assms by (simp add: pipevec_tensor_inner_product_tensor_def subset_rank0 format_size_t_array_short)

lemma inner_rank0_right:
  assumes "pipevec_tensor_get_instance_private h t = Inr p" "shape p = []"
    "pipevec_tensor_get_instance_private h u = Inr q"
  shows "pipevec_tensor_inner_product_tensor h u t = Inl (Crash OutOfBounds)"
  using assms format_cases [of "shape q"]
  by (auto simp add: pipevec_tensor_inner_product_tensor_def subset_rank0 format_size_t_array_short)

section \<open>Which failures are reported errors\<close>

lemma reports_gerror_simps [simp]:
  "reports_gerror (Inr x) = False"
  "reports_gerror (Inl (Crash f)) = False"
  "reports_gerror (Inl ReturnedNull) = False"
  "reports_gerror (Inl (GError c m)) = True"
  by (simp_all add: reports_gerror_def)

lemma ng_and_then:
  "\<not> reports_gerror m \<Longrightarrow> (\<And>x. m = Inr x \<Longrightarrow> \<not> reports_gerror (f x)) \<Longrightarrow> \<not> reports_gerror (and_then m f)"
  by (cases m) (simp_all add: reports_gerror_def)

lemma ng_for_range:
  "(\<And>i s. \<not> reports_gerror (body i s)) \<Longrightarrow> \<not> reports_gerror (for_range js body s)"
proof (induction js arbitrary: s)
  case Nil
  then show ?case by simp
next
  case (Cons j js)
  show ?case
  proof (cases "body j s")
    case (Inl e)
    then show ?thesis using Cons.prems [of j s] by simp
  next
    case (Inr s')
    then show ?thesis using Cons.IH [OF Cons.prems] by simp
  qed
qed

lemma ng_prims [simp]:
  "\<not> reports_gerror (index_at xs i)"
  "\<not> reports_gerror (size_t_div a b)"
  "\<not> reports_gerror (array_size_t_product ys n)"
  "\<not> reports_gerror (g_array_index_float ys k)"
  "\<not> reports_gerror (g_array_index_float_set ys k v)"
  "\<not> reports_gerror (float_to_size_t w)"
  "\<not> reports_gerror (pipevec_tensor_get_instance_private h t)"
  by (simp_all add: index_at_def size_t_div_def array_size_t_product_def g_array_index_float_def
      g_array_index_float_set_def float_to_size_t_def Let_def
      pipevec_tensor_get_instance_private_def split: option.splits)

lemma ng_as_size_t [simp]: "\<not> reports_gerror (g_array_index_float_as_size_t ys k)"
  by (simp add: g_array_index_float_as_size_t_def ng_and_then)

lemma ng_array_load [simp]: "\<not> reports_gerror (array_load h t off)"
  unfolding array_load_def
  by (rule ng_and_then) (simp_all split: option.splits)

lemma ng_array_store [simp]: "\<not> reports_gerror (array_store h t off v)"
  unfolding array_store_def
  by (rule ng_and_then) (simp_all split: option.splits)

lemma ng_error_discarded [simp]: "\<not> reports_gerror (error_discarded r)"
  by (simp add: error_discarded_def reports_gerror_def split: sum.splits failure.splits)

lemma inner_product_compute_no_gerror:
  "\<not> reports_gerror (inner_product_compute h lhs rhs lp rp)"
  unfolding inner_product_compute_def case_prod_beta
  by (intro ng_and_then ng_for_range ng_prims ng_as_size_t ng_array_load ng_array_store
        ng_error_discarded) simp

lemma list_all_nth_take:
  "n \<le> length xs \<Longrightarrow> n \<le> length ys \<Longrightarrow>
   list_all (\<lambda>i. xs ! i = ys ! i) [0..<n] = (take n xs = take n ys)"
  by (auto simp add: list_all_iff list_eq_iff_nth_eq)

lemma shape_subset_equal_batch:
  assumes "2 \<le> length l" "2 \<le> length r"
  shows "shape_subset_equal l r 2 = (batch_axes l = batch_axes r)"
proof (cases "length l = length r")
  case True
  then show ?thesis
    using assms by (simp add: shape_subset_equal_def batch_axes_def list_all_nth_take)
next
  case False
  have "length (batch_axes l) \<noteq> length (batch_axes r)"
    using False assms by (simp add: batch_axes_def)
  then have "batch_axes l \<noteq> batch_axes r"
    by auto
  then show ?thesis
    using False by (simp add: shape_subset_equal_def)
qed

section \<open>When a shape mismatch is reported\<close>

text \<open>
  For a live tensor and a shape of rank at least two, \<^verbatim>\<open>pipevec_tensor_set_data\<close> reports
  a bad-shape error exactly when the product of the shape, computed in \<^verbatim>\<open>size_t\<close>,
  differs from the length of the contents.
\<close>

lemma alloc_shape_error_code:
  "pipevec_tensor_alloc_shape h t s = Inl (GError code message) \<Longrightarrow> code = PIPEVEC_ERROR_INTERNAL"
  by (auto simp add: pipevec_tensor_alloc_shape_def and_then_def index_at_def size_t_div_def
      array_size_t_product_def pipevec_tensor_get_instance_private_def
      g_array_index_float_as_size_t_def g_array_index_float_def g_array_index_float_set_def
      float_to_size_t_def Let_def
      split: sum.splits if_splits option.splits)

lemma set_data_bad_shape_iff:
  assumes live: "pipevec_tensor_get_instance_private h t = Inr p"
    and rank: "2 \<le> length s"
    and product: "array_size_t_product s (length s) = Inr n"
  shows "(\<exists>message. pipevec_tensor_set_data h t contents s =
            Inl (GError PIPEVEC_ERROR_BAD_SHAPE message))
         = (unat n \<noteq> length contents)"
proof (cases "unat n = length contents")
  case False
  obtain formatted where "format_size_t_array s = Inr formatted"
    using format_size_t_array_long [OF rank] by blast
  then show ?thesis
    using False live product by (simp add: pipevec_tensor_set_data_def)
next
  case True
  have "pipevec_tensor_set_data h t contents s \<noteq> Inl (GError PIPEVEC_ERROR_BAD_SHAPE message)"
    for message
  proof (cases "pipevec_tensor_alloc_shape h t s")
    case (Inl e)
    then show ?thesis
      using True live product alloc_shape_error_code [of h t s]
      by (cases e) (auto simp add: pipevec_tensor_set_data_def)
  next
    case (Inr h1)
    have "\<not> reports_gerror (pipevec_tensor_set_data h t contents s)"
      using True live product Inr
      apply (simp add: pipevec_tensor_set_data_def)
      apply (intro ng_and_then ng_for_range ng_prims ng_as_size_t ng_array_store)
      done
    then show ?thesis
      by (auto simp add: reports_gerror_def)
  qed
  then show ?thesis
    using True by simp
qed

section \<open>When the inner product reports a shape error\<close>

text \<open>
  The text \<^verbatim>\<open>format_size_t_array\<close> returns is built from loop indices, so it depends on the
  length of the shape only.
\<close>

lemma format_size_t_array_length_only:
  "length xs = length ys \<Longrightarrow> format_size_t_array xs = format_size_t_array ys"
  by (simp add: format_size_t_array_def)

text \<open>
  With an operand of rank below two the function takes its first error path, where
  the formatter stores outside its vector: no error is returned.
\<close>

lemma inner_product_rank_below_2:
  assumes lhs: "pipevec_tensor_get_instance_private h lhs = Inr lp"
    and rhs: "pipevec_tensor_get_instance_private h rhs = Inr rp"
    and rank: "length (shape lp) < 2 \<or> length (shape rp) < 2"
  shows "pipevec_tensor_inner_product_tensor h lhs rhs = Inl (Crash OutOfBounds)"
proof -
  have differ: "\<not> shape_subset_equal (shape lp) (shape rp) 2"
    using rank by (auto simp add: shape_subset_equal_def)
  show ?thesis
  proof (cases "length (shape lp) < 2")
    case True
    then show ?thesis
      using lhs rhs differ
      by (simp add: pipevec_tensor_inner_product_tensor_def format_size_t_array_short)
  next
    case False
    then have "length (shape rp) < 2"
      using rank by simp
    then show ?thesis
      using lhs rhs differ format_cases [of "shape lp"]
      by (auto simp add: pipevec_tensor_inner_product_tensor_def format_size_t_array_short)
  qed
qed

text \<open>
  For operands of rank at least two the result is the first error when the batch axes
  differ in count or values, the second error when they agree and the last axis of
  the left operand differs from the second-to-last axis of the right operand, and
  otherwise the result of the computation part, which never reports a \<^verbatim>\<open>GError\<close>. Both
  errors are returned before a tensor is created. The shape texts \<open>fl\<close> and \<open>fr\<close> are
  those \<^verbatim>\<open>format_size_t_array\<close> produces.
\<close>

lemma inner_product_rank2_cases:
  assumes lhs: "pipevec_tensor_get_instance_private h lhs = Inr lp"
    and rhs: "pipevec_tensor_get_instance_private h rhs = Inr rp"
    and ll: "2 \<le> length (shape lp)" and lr: "2 \<le> length (shape rp)"
  shows "\<exists>fl fr. format_size_t_array (shape lp) = Inr fl \<and> format_size_t_array (shape rp) = Inr fr \<and>
     pipevec_tensor_inner_product_tensor h lhs rhs =
       (if batch_axes (shape lp) \<noteq> batch_axes (shape rp)
        then Inl (GError PIPEVEC_ERROR_BAD_SHAPE
               (fl @ '' and '' @ fr @ '' must have the same leading shape''))
        else if last (shape lp) \<noteq> shape rp ! (length (shape rp) - 2)
        then Inl (GError PIPEVEC_ERROR_BAD_SHAPE
               (''Arrays of shape '' @ fl @ '' and '' @ fr
                @ '' are not compatible for inner product, ''
                @ show_nat (unat (last (shape lp))) @ '' != ''
                @ show_nat (unat (shape rp ! (length (shape rp) - 2)))))
        else inner_product_compute h lhs rhs lp rp)
     \<and> (\<forall>code message. inner_product_compute h lhs rhs lp rp \<noteq> Inl (GError code message))"
proof -
  obtain fl where fl: "format_size_t_array (shape lp) = Inr fl"
    using format_size_t_array_long [OF ll] by blast
  obtain fr where fr: "format_size_t_array (shape rp) = Inr fr"
    using format_size_t_array_long [OF lr] by blast
  have ne: "shape lp \<noteq> []"
    using ll by auto
  have g1: "guint_sub (length (shape lp)) (Suc 0) = length (shape lp) - Suc 0"
    using ll by (simp add: guint_sub_def)
  have g2: "guint_sub (length (shape rp)) 2 = length (shape rp) - 2"
    using lr by (simp add: guint_sub_def)
  have last_l: "index_at (shape lp) (length (shape lp) - Suc 0) = Inr (last (shape lp))"
    using ll ne by (simp add: index_at_def last_conv_nth)
  have n_r: "index_at (shape rp) (length (shape rp) - 2) = Inr (shape rp ! (length (shape rp) - 2))"
    using lr by (simp add: index_at_def)
  have run: "pipevec_tensor_inner_product_tensor h lhs rhs =
       (if batch_axes (shape lp) \<noteq> batch_axes (shape rp)
        then Inl (GError PIPEVEC_ERROR_BAD_SHAPE
               (fl @ '' and '' @ fr @ '' must have the same leading shape''))
        else if last (shape lp) \<noteq> shape rp ! (length (shape rp) - 2)
        then Inl (GError PIPEVEC_ERROR_BAD_SHAPE
               (''Arrays of shape '' @ fl @ '' and '' @ fr
                @ '' are not compatible for inner product, ''
                @ show_nat (unat (last (shape lp))) @ '' != ''
                @ show_nat (unat (shape rp ! (length (shape rp) - 2)))))
        else inner_product_compute h lhs rhs lp rp)"
    by (simp add: pipevec_tensor_inner_product_tensor_def lhs rhs
        shape_subset_equal_batch [OF ll lr] fl fr g1 g2 last_l n_r)
  have "\<not> reports_gerror (inner_product_compute h lhs rhs lp rp)"
    by (rule inner_product_compute_no_gerror)
  then have quiet: "\<forall>code message. inner_product_compute h lhs rhs lp rp \<noteq> Inl (GError code message)"
    by (auto simp add: reports_gerror_def)
  show ?thesis
    using fl fr run quiet by blast
qed

section \<open>Objects that an operation does not write\<close>

lemma for_range_inv:
  assumes "for_range js body s = Inr s'" and "I s"
    and "\<And>j a b. I a \<Longrightarrow> body j a = Inr b \<Longrightarrow> I b"
  shows "I s'"
  using assms(1,2)
proof (induction js arbitrary: s)
  case Nil
  then show ?case by simp
next
  case (Cons j js)
  then obtain m where m: "body j s = Inr m" and rest: "for_range js body m = Inr s'"
    by (auto split: sum.splits)
  have "I m"
    using assms(3) [OF Cons.prems(2) m] .
  then show ?case
    using Cons.IH [OF rest] by simp
qed

lemma others_kept_refl [simp]: "others_kept t h h"
  by (simp add: others_kept_def)

lemma others_kept_trans: "others_kept t a b \<Longrightarrow> others_kept t b c \<Longrightarrow> others_kept t a c"
  by (simp add: others_kept_def)

lemma others_kept_set_private [simp]: "others_kept t h (set_private h t p)"
  by (simp add: others_kept_def set_private_def)

lemma array_store_kept: "array_store h t off v = Inr h' \<Longrightarrow> others_kept t h h'"
  by (auto simp add: array_store_def and_then_eq_Inr split: option.splits if_splits)

lemma memcpy_kept: "memcpy_to_array h t src n = Inr h' \<Longrightarrow> others_kept t h h'"
  by (cases src)
     (auto simp add: memcpy_to_array_def and_then_eq_Inr Let_def split: option.splits if_splits)

lemma alloc_shape_kept: "pipevec_tensor_alloc_shape h t s = Inr h' \<Longrightarrow> others_kept t h h'"
  by (auto simp add: pipevec_tensor_alloc_shape_def and_then_eq_Inr split: if_splits)

lemma store_loop_kept:
  assumes "for_range js body s = Inr s'" and "others_kept t h s"
    and "\<And>j a b. body j a = Inr b \<Longrightarrow> others_kept t a b"
  shows "others_kept t h s'"
  by (rule for_range_inv [OF assms(1), where I = "others_kept t h"])
     (use assms(2,3) others_kept_trans in blast)+

lemma set_data_loops_kept:
  assumes loop: "for_range ls (\<lambda>i h2.
             and_then
               (for_range [0..<unat inner] (\<lambda>j h3.
                  and_then (index_at contents (unat (of_nat i * inner + of_nat j))) (\<lambda>v.
                    array_store h3 t (of_nat i * pad + of_nat j) v)) h2)
               (for_range [unat inner..<unat pad] (\<lambda>j h3.
                  array_store h3 t (of_nat i * pad + of_nat j) 0))) h1 = Inr h'"
    and start: "others_kept t h h1"
  shows "others_kept t h h'"
proof (rule store_loop_kept [OF loop start])
  fix i a b
  assume "and_then
               (for_range [0..<unat inner] (\<lambda>j h3.
                  and_then (index_at contents (unat (of_nat i * inner + of_nat j))) (\<lambda>v.
                    array_store h3 t (of_nat i * pad + of_nat j) v)) a)
               (for_range [unat inner..<unat pad] (\<lambda>j h3.
                  array_store h3 t (of_nat i * pad + of_nat j) 0)) = Inr b"
  then obtain m where
      first: "for_range [0..<unat inner] (\<lambda>j h3.
                  and_then (index_at contents (unat (of_nat i * inner + of_nat j))) (\<lambda>v.
                    array_store h3 t (of_nat i * pad + of_nat j) v)) a = Inr m" and
      second: "for_range [unat inner..<unat pad] (\<lambda>j h3.
                  array_store h3 t (of_nat i * pad + of_nat j) 0) m = Inr b"
    unfolding and_then_eq_Inr by blast
  have "others_kept t a m"
    by (rule store_loop_kept [OF first]) (auto simp add: and_then_eq_Inr intro: array_store_kept)
  then show "others_kept t a b"
    by (rule store_loop_kept [OF second]) (auto intro: array_store_kept)
qed

lemma set_data_kept:
  assumes "pipevec_tensor_set_data h t contents s = Inr h'"
  shows "others_kept t h h'"
  using assms
  by (auto simp add: pipevec_tensor_set_data_def and_then_eq_Inr split: if_splits
      elim!: set_data_loops_kept dest: alloc_shape_kept)

lemma new_object_kept:
  assumes "others_kept (length (objs h)) (fst (g_object_new h)) h'"
  shows "take (length (objs h)) (objs h') = objs h \<and> length (objs h) < length (objs h')"
proof -
  let ?n = "length (objs h)"
  from assms have eq: "(objs h')[?n := None] = objs h @ [None]"
    by (simp add: others_kept_def g_object_new_def)
  then have "length ((objs h')[?n := None]) = Suc ?n"
    by simp
  then have len: "?n < length (objs h')"
    by simp
  have "take ?n (objs h') = take ?n ((objs h')[?n := None])"
    by simp
  also have "\<dots> = objs h"
    by (simp add: eq)
  finally show ?thesis
    using len by simp
qed

lemma get_data_cong:
  assumes "x < length (objs h)" "x < length (objs h')" "objs h' ! x = objs h ! x"
  shows "pipevec_tensor_get_data h' x = pipevec_tensor_get_data h x"
proof -
  have p: "pipevec_tensor_get_instance_private h' x = pipevec_tensor_get_instance_private h x"
    using assms by (simp add: pipevec_tensor_get_instance_private_def)
  have l: "array_load h' x off = array_load h x off" for off
    by (simp add: array_load_def p)
  show ?thesis
    by (simp add: pipevec_tensor_get_data_def p l)
qed

lemma prefix_operands_kept:
  assumes "take (length (objs h)) (objs h') = objs h" "length (objs h) \<le> length (objs h')"
  shows "operands_kept h h'"
proof -
  have nth: "objs h' ! x = objs h ! x" if "x < length (objs h)" for x
  proof -
    have "take (length (objs h)) (objs h') ! x = objs h' ! x"
      using that by simp
    then show ?thesis
      using assms(1) by simp
  qed
  have obs: "observable_state h' x = observable_state h x" if "x < length (objs h)" for x
  proof -
    have "x < length (objs h')"
      using that assms(2) by simp
    then show ?thesis
      using that nth [OF that] get_data_cong [of x h h']
      by (simp add: observable_state_def pipevec_tensor_get_instance_private_def)
  qed
  show ?thesis
    using nth obs by (simp add: operands_kept_def)
qed

lemma copy_kept:
  assumes "pipevec_tensor_copy h t = Inr (h', c)"
  shows "c = length (objs h) \<and> others_kept c (fst (g_object_new h)) h'"
  using assms
  by (auto simp add: pipevec_tensor_copy_def pipevec_tensor_set_data_aligned_padded_def
        and_then_eq_Inr g_object_new_def
      dest!: alloc_shape_kept memcpy_kept intro: others_kept_trans)

lemma nested_loop_kept:
  assumes loop: "for_range ls (\<lambda>i. for_range (js i) (body i)) s = Inr s'"
    and start: "others_kept t h s"
    and step: "\<And>i j a b. body i j a = Inr b \<Longrightarrow> others_kept t a b"
  shows "others_kept t h s'"
proof (rule store_loop_kept [OF loop start])
  fix i a b
  assume "for_range (js i) (body i) a = Inr b"
  then show "others_kept t a b"
    by (rule store_loop_kept) (auto intro: step)
qed

lemma map_kept:
  assumes "pipevec_tensor_map h src func = Inr (h', r)"
  shows "r = length (objs h) \<and> others_kept r (fst (g_object_new h)) h'"
  using assms
  apply (clarsimp simp add: pipevec_tensor_map_def and_then_eq_Inr dest!: copy_kept)
  apply (erule nested_loop_kept, assumption)
  apply (auto simp add: and_then_eq_Inr intro: array_store_kept)
  done

lemma elementwise_kept:
  assumes "pipevec_tensor_do_elementwise_op h lhs rhs func = Inr (h', r)"
  shows "r = length (objs h) \<and> others_kept r (fst (g_object_new h)) h'"
  using assms
  apply (clarsimp simp add: pipevec_tensor_do_elementwise_op_def and_then_eq_Inr dest!: copy_kept)
  apply (erule nested_loop_kept, assumption)
  apply (auto simp add: and_then_eq_Inr intro: array_store_kept)
  done

lemma scalar_kept:
  assumes "pipevec_tensor_do_scalar_op h lhs rhs func = Inr (h', r)"
  shows "r = length (objs h) \<and> others_kept r (fst (g_object_new h)) h'"
  using assms
  apply (clarsimp simp add: pipevec_tensor_do_scalar_op_def and_then_eq_Inr dest!: copy_kept)
  apply (erule nested_loop_kept, assumption)
  apply (auto simp add: and_then_eq_Inr intro: array_store_kept)
  done

lemma error_discarded_Inr: "error_discarded r = Inr x \<Longrightarrow> r = Inr x"
  by (auto simp add: error_discarded_def split: sum.splits failure.splits)

lemma inner_loops_kept:
  assumes loop: "for_range bs (\<lambda>b. for_range (rs b) (\<lambda>i. for_range (cs b i) (body b i))) s = Inr s'"
    and start: "others_kept t h s"
    and step: "\<And>b i j x y. body b i j x = Inr y \<Longrightarrow> others_kept t x y"
  shows "others_kept t h s'"
proof (rule store_loop_kept [OF loop start])
  fix b x y
  assume "for_range (rs b) (\<lambda>i. for_range (cs b i) (body b i)) x = Inr y"
  then show "others_kept t x y"
    by (rule nested_loop_kept) (auto intro: step)
qed

lemma inner_product_compute_kept:
  assumes "inner_product_compute h lhs rhs lp rp = Inr (h', r)"
  shows "r = length (objs h) \<and> others_kept r (fst (g_object_new h)) h'"
  using assms
  apply (clarsimp simp add: inner_product_compute_def and_then_eq_Inr g_object_new_def
          dest!: error_discarded_Inr alloc_shape_kept)
  apply (erule inner_loops_kept, assumption)
  apply (clarsimp simp add: and_then_eq_Inr)
  apply (drule array_store_kept)
  apply (erule store_loop_kept, assumption)
  apply (auto simp add: and_then_eq_Inr intro: array_store_kept)
  done

lemma inner_product_kept:
  assumes "pipevec_tensor_inner_product_tensor h lhs rhs = Inr (h', r)"
  shows "r = length (objs h) \<and> others_kept r (fst (g_object_new h)) h'"
  using assms
  by (auto simp add: pipevec_tensor_inner_product_tensor_def and_then_eq_Inr
      split: if_splits dest: inner_product_compute_kept)

section \<open>The padded shape of a tensor of rank two\<close>

text \<open>
  For a shape of rank two, float slot \<open>len - 1\<close> is the upper half of the first entry.
  When the first dimension is below \<open>2^32\<close> that half is zero, it is padded to zero and
  written back: the padded shape that is stored equals the shape, whatever the last
  dimension is.
\<close>

lemma high_half_zero:
  assumes "(a :: size_t) < 2 ^ 32"
  shows "drop_bit 32 a = 0"
proof -
  have "unat a < 2 ^ 32"
    using assms by (simp add: word_less_nat_alt)
  have lt: "unat a < 2 ^ 32"
    using assms by (simp add: word_less_nat_alt)
  have "unat (drop_bit 32 a) = drop_bit 32 (unat a)"
    by (rule unat_drop_bit_eq)
  also have "\<dots> = unat a div 2 ^ 32"
    by (rule drop_bit_eq_div)
  also have "\<dots> = 0"
    using lt by simp
  finally have "unat (drop_bit 32 a) = 0" .
  then show ?thesis
    by (simp add: unat_eq_0)
qed

lemma low_half_kept:
  assumes "(a :: size_t) < 2 ^ 32"
  shows "a AND 0xFFFFFFFF = a"
proof -
  have "(mask 32 :: size_t) = 0xFFFFFFFF"
    by (simp add: mask_eq_exp_minus_1)
  then show ?thesis
    using less_mask_eq [OF assms] by simp
qed

lemma alloc_shape_rank2:
  assumes p: "pipevec_tensor_get_instance_private h t = Inr p"
    and a: "a < 2 ^ 32" and b: "b \<noteq> 0"
    and mem: "unat (32 * ((a * b) div b * apply_padding b 8)) \<le> mem_limit h"
  shows "pipevec_tensor_alloc_shape h t [a, b] =
     Inr (set_private h t \<lparr>array = None, shape = [a, b], padded_shape = [a, b]\<rparr>)"
proof -
  have rd: "g_array_index_float_as_size_t [a, b] (Suc 0) = Inr 0"
    using high_half_zero [OF a]
    by (simp add: g_array_index_float_as_size_t_def g_array_index_float_def float_to_size_t_def)
  have wr: "g_array_index_float_set [a, b] (Suc 0) (size_t_to_float (apply_padding 0 8)) = Inr [a, b]"
    using low_half_kept [OF a]
    by (simp add: g_array_index_float_set_def size_t_to_float_def apply_padding_def)
  show ?thesis
    using p b mem
    by (simp add: pipevec_tensor_alloc_shape_def array_size_t_product_def index_at_def
        size_t_div_def rd wr)
qed

section \<open>The buffer pointer is never set\<close>

text \<open>
  \<^verbatim>\<open>pipevec_tensor_alloc_shape\<close> leaves \<^verbatim>\<open>priv->array\<close> at \<^verbatim>\<open>NULL\<close>, and every access
  through a \<^verbatim>\<open>NULL\<close> buffer faults. Hence a \<^verbatim>\<open>set_data\<close> that returns has copied no
  element, every tensor returned by a producing operation has a \<^verbatim>\<open>NULL\<close> buffer, and
  \<^verbatim>\<open>get_data\<close> on such a tensor can only return the empty sequence. The object
  returned by \<^verbatim>\<open>pipevec_tensor_new\<close> is finalized, so reading it always faults.
\<close>

lemma store_null: "null_buffer h t \<Longrightarrow> array_store h t off v = Inl (Crash NullDereference)"
  by (auto simp add: null_buffer_def array_store_def split: sum.splits)

lemma load_null: "null_buffer h t \<Longrightarrow> array_load h t off = Inl (Crash NullDereference)"
  by (auto simp add: null_buffer_def array_load_def split: sum.splits)

lemma alloc_null: "pipevec_tensor_alloc_shape h t s = Inr h' \<Longrightarrow> null_buffer h' t"
  by (auto simp add: pipevec_tensor_alloc_shape_def and_then_eq_Inr null_buffer_def
      pipevec_tensor_get_instance_private_def set_private_def split: if_splits)

lemma memcpy_null: "memcpy_to_array h t src n = Inr h' \<Longrightarrow> null_buffer h t \<Longrightarrow> h' = h"
  by (auto simp add: memcpy_to_array_def and_then_eq_Inr null_buffer_def Let_def
      split: if_splits option.splits)

lemma for_range_stuck:
  assumes "for_range js body s = Inr s'" and "\<And>j. \<exists>e. body j s = Inl e"
  shows "s' = s"
proof (cases js)
  case Nil
  then show ?thesis using assms(1) by simp
next
  case (Cons j rest)
  from assms(2) obtain e where "body j s = Inl e" by blast
  then show ?thesis using assms(1) Cons by simp
qed

lemma for_range_fixed:
  assumes "for_range js body s = Inr s'" and "\<And>j b. body j s = Inr b \<Longrightarrow> b = s"
  shows "s' = s"
  by (rule for_range_inv [OF assms(1), where I = "\<lambda>x. x = s"]) (use assms(2) in auto)

lemma set_data_loops_null:
  assumes loop: "for_range ls (\<lambda>i h2.
             and_then
               (for_range [0..<unat (inner :: size_t)] (\<lambda>j h3.
                  and_then (index_at contents (unat (of_nat i * inner + of_nat j))) (\<lambda>v.
                    array_store h3 t (of_nat i * pad + of_nat j) v)) h2)
               (for_range [unat inner..<unat pad] (\<lambda>j h3.
                  array_store h3 t (of_nat i * pad + of_nat j) 0))) h1 = Inr h'"
    and null: "null_buffer h1 t"
  shows "h' = h1"
proof (rule for_range_fixed [OF loop])
  fix i b
  assume "and_then
             (for_range [0..<unat inner] (\<lambda>j h3.
                and_then (index_at contents (unat (of_nat i * inner + of_nat j))) (\<lambda>v.
                  array_store h3 t (of_nat i * pad + of_nat j) v)) h1)
             (for_range [unat inner..<unat pad] (\<lambda>j h3.
                array_store h3 t (of_nat i * pad + of_nat j) 0)) = Inr b"
  then obtain m where
    first: "for_range [0..<unat inner] (\<lambda>j h3.
                and_then (index_at contents (unat (of_nat i * inner + of_nat j))) (\<lambda>v.
                  array_store h3 t (of_nat i * pad + of_nat j) v)) h1 = Inr m" and
    second: "for_range [unat inner..<unat pad] (\<lambda>j h3.
                array_store h3 t (of_nat i * pad + of_nat j) 0) m = Inr b"
    unfolding and_then_eq_Inr by blast
  have stuck: "\<exists>e. and_then (index_at contents (unat (of_nat i * inner + of_nat j :: size_t)))
                 (\<lambda>v. array_store h1 t (of_nat i * pad + of_nat j) v) = Inl e" for j
    by (cases "index_at contents (unat (of_nat i * inner + of_nat j :: size_t))")
       (simp_all add: store_null [OF null])
  have m: "m = h1"
    by (rule for_range_stuck [OF first]) (rule stuck)
  show "b = h1"
    using for_range_stuck [OF second] store_null [OF null] m by simp
qed

lemma set_data_null:
  assumes "pipevec_tensor_set_data h t contents s = Inr h'"
  shows "null_buffer h' t"
  using assms
  apply (clarsimp simp add: pipevec_tensor_set_data_def and_then_eq_Inr split: if_splits)
  apply (frule alloc_null)
  apply (drule set_data_loops_null, assumption)
  apply simp
  done

lemma those_replicate_None: "those (replicate n None) = Some data \<Longrightarrow> data = []"
  by (cases n) simp_all

lemma load_loops_null:
  assumes loop: "for_range ls (\<lambda>i. for_range (js i) (\<lambda>j rv.
                   and_then (array_load h t (off i j)) (\<lambda>v. k i j rv v))) rv0 = Inr rv'"
    and null: "null_buffer h t"
  shows "rv' = rv0"
proof (rule for_range_fixed [OF loop])
  fix i b
  assume inner: "for_range (js i) (\<lambda>j rv.
                   and_then (array_load h t (off i j)) (\<lambda>v. k i j rv v)) rv0 = Inr b"
  show "b = rv0"
    by (rule for_range_stuck [OF inner]) (simp add: load_null [OF null])
qed

lemma get_data_null:
  assumes "null_buffer h t" and "pipevec_tensor_get_data h t = Inr data"
  shows "data = []"
  using assms(2)
  apply (clarsimp simp add: pipevec_tensor_get_data_def and_then_eq_Inr split: option.splits)
  apply (drule load_loops_null [OF _ assms(1)])
  apply (simp add: those_replicate_None)
  done

lemma round_trip_only_empty:
  assumes "pipevec_tensor_set_data h t contents s = Inr h'"
    and "pipevec_tensor_get_data h' t = Inr data"
  shows "data = []"
  using get_data_null [OF set_data_null [OF assms(1)] assms(2)] .

lemma get_data_after_unref: "pipevec_tensor_get_data (g_object_unref h t) t = Inl (Crash InvalidPointer)"
  by (simp add: pipevec_tensor_get_data_def pipevec_tensor_get_instance_private_def g_object_unref_def)

lemma get_data_after_new:
  assumes "pipevec_tensor_new h s contents = Inr (h', t)"
  shows "pipevec_tensor_get_data h' t = Inl (Crash InvalidPointer)"
  using assms
  by (auto simp add: pipevec_tensor_new_def and_then_eq_Inr g_object_new_def get_data_after_unref)

lemma copy_null:
  assumes "pipevec_tensor_copy h t = Inr (h', c)"
  shows "null_buffer h' c"
  using assms
  apply (clarsimp simp add: pipevec_tensor_copy_def pipevec_tensor_set_data_aligned_padded_def
      and_then_eq_Inr g_object_new_def)
  apply (frule alloc_null)
  apply (drule memcpy_null, assumption)
  apply simp
  done

lemma store_loops_null:
  assumes loop: "for_range ls (\<lambda>i. for_range (js i) (body i)) s = Inr s'"
    and null: "null_buffer s t"
    and stuck: "\<And>i j. \<exists>e. body i j s = Inl e"
  shows "s' = s"
proof (rule for_range_fixed [OF loop])
  fix i b
  assume inner: "for_range (js i) (body i) s = Inr b"
  show "b = s"
    by (rule for_range_stuck [OF inner]) (rule stuck)
qed

lemma and_then_stuck:
  "(\<And>x. m = Inr x \<Longrightarrow> \<exists>e. f x = Inl e) \<Longrightarrow> \<exists>e. and_then m f = Inl e"
  by (cases m) simp_all

lemma map_null:
  assumes "pipevec_tensor_map h src func = Inr (h', r)"
  shows "null_buffer h' r"
  using assms
  apply (clarsimp simp add: pipevec_tensor_map_def and_then_eq_Inr)
  apply (frule copy_null)
  apply (drule store_loops_null, assumption)
   apply (intro and_then_stuck)
   apply (simp add: load_null)
  apply simp
  done

lemma elementwise_null:
  assumes "pipevec_tensor_do_elementwise_op h lhs rhs func = Inr (h', r)"
  shows "null_buffer h' r"
  using assms
  apply (clarsimp simp add: pipevec_tensor_do_elementwise_op_def and_then_eq_Inr)
  apply (frule copy_null)
  apply (drule store_loops_null, assumption)
   apply (intro and_then_stuck)
   apply (simp add: store_null)
  apply simp
  done

lemma scalar_null:
  assumes "pipevec_tensor_do_scalar_op h lhs rhs func = Inr (h', r)"
  shows "null_buffer h' r"
  using assms
  apply (clarsimp simp add: pipevec_tensor_do_scalar_op_def and_then_eq_Inr)
  apply (frule copy_null)
  apply (drule store_loops_null, assumption)
   apply (intro and_then_stuck)
   apply (simp add: store_null)
  apply simp
  done

lemma store_loops3_null:
  assumes loop: "for_range bs (\<lambda>b. for_range (rs b) (\<lambda>i. for_range (cs b i) (body b i))) s = Inr s'"
    and stuck: "\<And>b i j. \<exists>e. body b i j s = Inl e"
  shows "s' = s"
proof (rule for_range_fixed [OF loop])
  fix b x
  assume rows: "for_range (rs b) (\<lambda>i. for_range (cs b i) (body b i)) s = Inr x"
  show "x = s"
  proof (rule for_range_fixed [OF rows])
    fix i y
    assume cols: "for_range (cs b i) (body b i) s = Inr y"
    show "y = s"
      by (rule for_range_stuck [OF cols]) (rule stuck)
  qed
qed

lemma inner_product_compute_null:
  assumes "inner_product_compute h lhs rhs lp rp = Inr (h', r)"
  shows "null_buffer h' r"
  using assms
  apply (clarsimp simp add: inner_product_compute_def and_then_eq_Inr g_object_new_def
          dest!: error_discarded_Inr)
  apply (frule alloc_null)
  apply (drule store_loops3_null)
   apply (intro and_then_stuck)
   apply (simp add: store_null)
  apply simp
  done

lemma inner_product_null:
  assumes "pipevec_tensor_inner_product_tensor h lhs rhs = Inr (h', r)"
  shows "null_buffer h' r"
  using assms
  by (auto simp add: pipevec_tensor_inner_product_tensor_def and_then_eq_Inr
      split: if_splits dest: inner_product_compute_null)

lemma set_location_2x3:
  "map (set_location [2, 3]) [0, 1, 2, 3, 4, 5] =
     [Inr [0, 0], Inr [0, 1], Inr [0, 2], Inr [1, 0], Inr [1, 1], Inr [1, 2]]"
  by (simp add: set_location_def upt_rec)

section \<open>Round trip\<close>

text \<open>
  Claim C1 states that for every shape of rank at least one with positive dimensions
  and every matching flat contents, reading back a tensor made by \<^verbatim>\<open>new\<close> returns
  exactly the contents. The code does not do this: \<^verbatim>\<open>pipevec_tensor_alloc_shape\<close> never
  stores the buffer it allocates in \<^verbatim>\<open>priv->array\<close>, so the first element copied by
  \<^verbatim>\<open>pipevec_tensor_set_data\<close> is written through \<^verbatim>\<open>NULL\<close>. For the shape \<open>(2,3)\<close> and the
  contents \<open>1,...,6\<close> construction faults, and so does \<^verbatim>\<open>set_data\<close> on a fresh tensor.
  The lemmas \<open>round_trip_only_empty\<close> and \<open>get_data_after_new\<close> above show that this is
  not particular to the input: no \<^verbatim>\<open>set_data\<close> followed by \<^verbatim>\<open>get_data\<close> returns a non-empty
  sequence, and \<^verbatim>\<open>get_data\<close> on the result of \<^verbatim>\<open>new\<close> never returns.
\<close>

theorem new_faults_on_2x3:
  "pipevec_tensor_new empty_heap [2, 3] [1, 2, 3, 4, 5, 6] = Inl (Crash NullDereference)
   \<and> pipevec_tensor_set_data fresh_heap 0 [1, 2, 3, 4, 5, 6] [2, 3] = Inl (Crash NullDereference)"
  by (simp add: eval_defs)

section \<open>Subtraction\<close>

text \<open>
  Claim C2 states that the subtraction element function is \<open>a - b\<close>, so that
  \<^verbatim>\<open>sub_tensor\<close> and \<^verbatim>\<open>sub_scalar\<close> subtract elementwise. The function \<^verbatim>\<open>sub\<close> of the source
  returns \<open>lhs + rhs\<close>: at \<open>5\<close> and \<open>3\<close> it yields \<open>8\<close>, not \<open>2\<close>.
\<close>

theorem sub_adds:
  "sub 5 3 = 8 \<and> sub 5 3 \<noteq> 5 - 3"
  by (simp add: sub_def)

section \<open>Padded shape\<close>

text \<open>
  Claim C3 states that after every successful population the stored padded shape
  agrees with the shape on all but the last dimension, and that its last dimension is
  a multiple of eight not below the last dimension of the shape. The code pads the
  float slot \<open>len - 1\<close> of the array of \<^verbatim>\<open>size_t\<close> entries instead of its last entry. For
  the shape \<open>(2,3)\<close> this slot is the upper half of the first entry: the stored padded
  shape stays \<open>(2,3)\<close>, and 3 is not a multiple of 8. For the shape \<open>(2,2,3)\<close> the slot is
  the lower half of the middle entry, which is overwritten by zero: the stored padded
  shape is \<open>(2,0,3)\<close>. By the lemma \<open>alloc_shape_rank2\<close> above the last dimension of
  a tensor of rank two is never padded.
\<close>

theorem alloc_shape_leaves_last_dimension_unpadded:
  "pipevec_tensor_alloc_shape fresh_heap 0 [2, 3] =
     Inr \<lparr>objs = [Some \<lparr>array = None, shape = [2, 3], padded_shape = [2, 3]\<rparr>],
          mem_limit = 65536\<rparr>
   \<and> pipevec_tensor_alloc_shape fresh_heap 0 [2, 2, 3] =
     Inr \<lparr>objs = [Some \<lparr>array = None, shape = [2, 2, 3], padded_shape = [2, 0, 3]\<rparr>],
          mem_limit = 65536\<rparr>"
  by (simp add: eval_defs)

section \<open>Inner product of the example matrices\<close>

text \<open>
  Claim C4 states that the inner product of a \<open>batch ++ (M,N)\<close> tensor with a
  \<open>batch ++ (N,K)\<close> tensor succeeds with shape \<open>batch ++ (M,K)\<close> and the sums of
  products as elements, and that \<open>[[1,2,3],[4,5,6]]\<close> times \<open>[[7,8],[9,10],[11,12]]\<close> is
  \<open>[[58,64],[139,154]]\<close> of shape \<open>(2,2)\<close>. On these two operands the code returns a tensor
  of shape \<open>(2,3)\<close> whose buffer is \<^verbatim>\<open>NULL\<close>: the new shape, the row count and the column
  count are read through float slots, both counts come out as zero, no product is
  computed, and reading the result faults. The operands are those of the example
  heap, laid out as the specification describes; populating the right operand
  through \<^verbatim>\<open>set_data\<close> faults already. By the lemma \<open>inner_product_null\<close> above every
  tensor the inner product returns has a \<^verbatim>\<open>NULL\<close> buffer.
\<close>

theorem inner_product_example_has_wrong_shape_and_no_data:
  "pipevec_tensor_set_data fresh_heap 0 [7, 8, 9, 10, 11, 12] [3, 2] = Inl (Crash NullDereference)
   \<and> pipevec_tensor_inner_product_tensor example_heap 0 1 = Inr (product_heap, 3)
   \<and> pipevec_tensor_get_instance_private product_heap 3 =
       Inr \<lparr>array = None, shape = [2, 3], padded_shape = [2, 3]\<rparr>
   \<and> pipevec_tensor_get_data product_heap 3 = Inl (Crash NullDereference)"
  by (simp add: eval_defs)

section \<open>Coordinate map of the zero matrix\<close>

text \<open>
  Claim C5 states that \<^verbatim>\<open>map\<close> visits exactly the logical elements, passes each its
  row-major coordinate and stores the callback's value, so that mapping the zero
  tensor of shape \<open>(2,3)\<close> with \<open>func (v, loc) = v + loc[0] * 10 + loc[1]\<close> yields
  \<open>[[0,1,2],[10,11,12]]\<close>. In the code \<^verbatim>\<open>map\<close> starts with \<^verbatim>\<open>copy\<close>, whose destination
  buffer is \<^verbatim>\<open>NULL\<close> (the allocation is never stored), so the \<^verbatim>\<open>memcpy\<close> of the sixteen
  padded cells faults before any element is visited. The source tensor is the zero
  matrix of the example heap; populating a fresh tensor with six zeros through
  \<^verbatim>\<open>set_data\<close> faults already. By the lemma \<open>map_null\<close> above every tensor that \<^verbatim>\<open>map\<close>
  returns has a \<^verbatim>\<open>NULL\<close> buffer; the coordinates themselves are computed as claimed
  (lemma \<open>set_location_2x3\<close>).
\<close>

theorem map_example_faults:
  "pipevec_tensor_set_data fresh_heap 0 [0, 0, 0, 0, 0, 0] [2, 3] = Inl (Crash NullDereference)
   \<and> pipevec_tensor_map example_heap 2 example_func = Inl (Crash NullDereference)"
  by (simp add: eval_defs)

section \<open>Elementwise addition\<close>

text \<open>
  Claim C6 states that for tensors of identical shape \<^verbatim>\<open>add_tensor\<close> succeeds with the
  elementwise sums (and likewise \<^verbatim>\<open>multiply_tensor\<close> and \<^verbatim>\<open>divide_tensor\<close>). Every
  elementwise operation starts with \<^verbatim>\<open>copy\<close> of its left operand and faults there, for
  the same reason as \<^verbatim>\<open>map\<close>: adding the zero matrix to \<open>[[1,2,3],[4,5,6]]\<close> faults, and so
  do the product and the quotient of that matrix with itself. The operands are those
  of the example heap; populating the left operand through \<^verbatim>\<open>set_data\<close> faults
  already. By the lemma \<open>elementwise_null\<close> above every tensor an elementwise
  operation returns has a \<^verbatim>\<open>NULL\<close> buffer.
\<close>

theorem add_tensor_example_faults:
  "pipevec_tensor_set_data fresh_heap 0 [1, 2, 3, 4, 5, 6] [2, 3] = Inl (Crash NullDereference)
   \<and> pipevec_tensor_add_tensor example_heap 0 2 = Inl (Crash NullDereference)
   \<and> pipevec_tensor_multiply_tensor example_heap 0 0 = Inl (Crash NullDereference)
   \<and> pipevec_tensor_divide_tensor example_heap 0 0 = Inl (Crash NullDereference)"
  by (simp add: pipevec_tensor_add_tensor_def pipevec_tensor_multiply_tensor_def
        pipevec_tensor_divide_tensor_def eval_defs)

section \<open>The error message of a shape mismatch\<close>

text \<open>
  Claim C7 states that \<^verbatim>\<open>set_data\<close> (and \<^verbatim>\<open>new\<close>) fails with a bad-shape error exactly when
  the product of the shape differs from the length of the contents, without
  allocating and leaving the tensor as it was, and that the message reports the
  dimension values of the shape and the mismatched contents length. For the shape
  \<open>(7,9)\<close> and five elements the code does report a bad-shape error, but its message
  shows neither 7 nor 9 nor 5: the formatter prints loop indices and overwrites its
  own output, and the length printed is the rank of the shape. For a shape of rank
  one the formatter writes outside its vector and no error is returned. When the
  error is reported is as claimed for shapes of rank at least two (lemma
  \<open>set_data_bad_shape_iff\<close> above).
\<close>

theorem set_data_mismatch_message:
  "pipevec_tensor_set_data fresh_heap 0 [1, 2, 3, 4, 5] [7, 9] =
     Inl (GError PIPEVEC_ERROR_BAD_SHAPE
            ''Shape ] has product 63 which does not match array length 2i'')
   \<and> pipevec_tensor_set_data fresh_heap 0 [1, 2, 3, 4, 5] [7] = Inl (Crash OutOfBounds)"
  by (simp add: format_size_t_array_rank2 format_size_t_array_short eval_defs)

section \<open>Failures of the inner product\<close>

text \<open>
  Claim C8 states that the inner product fails with a bad-shape error, producing no
  tensor and performing no computation, in exactly two cases: when the batch axes of
  the operands differ in count or values, reporting both shapes as requiring equal
  leading shape, and when the last axis of the left operand differs from the
  second-to-last axis of the right operand, reporting the mismatched contraction
  dimension. The code reports neither shape. Two tensors populated with no contents
  and the shapes \<open>(0,2,3)\<close> and \<open>(1,0,2)\<close> give the message
  \<open>[] and [] must have the same leading shape\<close>, and so do the shapes \<open>(2,2,3)\<close> and
  \<open>(3,3,2)\<close>: the formatter prints loop indices and overwrites its own output. When the
  batch axes differ in count because one operand has rank one, the formatter stores
  outside its vector and no error is returned at all. In the second case the two
  contraction dimensions are printed, but the shapes before them are not. When an
  error is reported is as claimed for operands of rank at least two (lemma
  \<open>inner_product_rank2_cases\<close> above), and by the lemma \<open>inner_product_rank_below_2\<close>
  every operand of rank below two ends in the fault.
\<close>

theorem inner_product_errors_show_no_shape:
  "and_then (pipevec_tensor_set_data fresh_heap 0 [] [0, 2, 3])
     (\<lambda>h1. case g_object_new h1 of (h2, rhs) \<Rightarrow> pipevec_tensor_set_data h2 rhs [] [1, 0, 2]) =
     Inr leading_heap
   \<and> pipevec_tensor_inner_product_tensor leading_heap 0 1 =
     Inl (GError PIPEVEC_ERROR_BAD_SHAPE ''[] and [] must have the same leading shape'')
   \<and> pipevec_tensor_inner_product_tensor batch_heap 0 1 =
     Inl (GError PIPEVEC_ERROR_BAD_SHAPE ''[] and [] must have the same leading shape'')
   \<and> pipevec_tensor_inner_product_tensor batch_heap 0 2 = Inl (Crash OutOfBounds)
   \<and> pipevec_tensor_inner_product_tensor batch_heap 2 0 = Inl (Crash OutOfBounds)
   \<and> pipevec_tensor_inner_product_tensor example_heap 0 2 =
     Inl (GError PIPEVEC_ERROR_BAD_SHAPE
            ''Arrays of shape ] and ] are not compatible for inner product, 3 != 2'')"
  by (simp add: format_size_t_array_rank2 format_size_t_array_rank3 format_size_t_array_short
        eval_defs)

section \<open>Tensors that were never populated\<close>

text \<open>
  Claim C10: every read or derive operation requires a tensor that was populated, so
  that its shape has rank at least one. A freshly constructed tensor has an empty
  shape and a \<^verbatim>\<open>NULL\<close> buffer; the operations index the shape at position
  \<open>rank - 1\<close>, so on a tensor of rank zero the out-of-bounds branch is reached, and it
  can be avoided only by a tensor of rank at least one. For every live tensor whose
  shape is empty, \<^verbatim>\<open>get_data\<close>, \<^verbatim>\<open>reshape\<close>, \<^verbatim>\<open>copy\<close>, \<^verbatim>\<open>map\<close>, the scalar operations, and
  the elementwise operations and the inner product with that tensor on either
  side, all end in the out-of-bounds fault.
\<close>

theorem unpopulated_tensor_operations_fault:
  assumes "pipevec_tensor_get_instance_private h t = Inr priv"
    and "shape priv = []"
    and "pipevec_tensor_get_instance_private h u = Inr other"
  shows "pipevec_tensor_get_data h t = Inl (Crash OutOfBounds)
    \<and> pipevec_tensor_reshape h t new_shape = Inl (Crash OutOfBounds)
    \<and> pipevec_tensor_copy h t = Inl (Crash OutOfBounds)
    \<and> pipevec_tensor_map h t func = Inl (Crash OutOfBounds)
    \<and> pipevec_tensor_do_scalar_op h t scalar binop = Inl (Crash OutOfBounds)
    \<and> pipevec_tensor_do_elementwise_op h t u binop = Inl (Crash OutOfBounds)
    \<and> pipevec_tensor_do_elementwise_op h u t binop = Inl (Crash OutOfBounds)
    \<and> pipevec_tensor_inner_product_tensor h t u = Inl (Crash OutOfBounds)
    \<and> pipevec_tensor_inner_product_tensor h u t = Inl (Crash OutOfBounds)"
  using assms
  by (simp add: get_data_rank0 reshape_rank0 copy_rank0 map_rank0 scalar_rank0
      elementwise_rank0_left elementwise_rank0_right inner_rank0_left inner_rank0_right)

theorem unpopulated_tensor_operations_fault_witness:
  "g_object_new empty_heap = (fresh_heap, 0)
   \<and> pipevec_tensor_get_instance_private fresh_heap 0 =
       Inr \<lparr>array = None, shape = [], padded_shape = []\<rparr>
   \<and> pipevec_tensor_get_data fresh_heap 0 = Inl (Crash OutOfBounds)
   \<and> pipevec_tensor_reshape fresh_heap 0 [2, 3] = Inl (Crash OutOfBounds)
   \<and> pipevec_tensor_copy fresh_heap 0 = Inl (Crash OutOfBounds)
   \<and> pipevec_tensor_map fresh_heap 0 example_func = Inl (Crash OutOfBounds)
   \<and> pipevec_tensor_add_scalar fresh_heap 0 1 = Inl (Crash OutOfBounds)
   \<and> pipevec_tensor_add_tensor fresh_heap 0 0 = Inl (Crash OutOfBounds)
   \<and> pipevec_tensor_inner_product_tensor fresh_heap 0 0 = Inl (Crash OutOfBounds)"
proof -
  have new: "g_object_new empty_heap = (fresh_heap, 0)"
    by (simp add: fresh_heap_def g_object_new_def empty_heap_def)
  have p: "pipevec_tensor_get_instance_private fresh_heap 0 =
       Inr \<lparr>array = None, shape = [], padded_shape = []\<rparr>"
    by (simp add: fresh_heap_def g_object_new_def empty_heap_def
        pipevec_tensor_get_instance_private_def pipevec_tensor_init_def)
  have "shape \<lparr>array = None, shape = [], padded_shape = []\<rparr> = []"
    by simp
  from unpopulated_tensor_operations_fault [OF p this p] new p show ?thesis
    by (simp add: pipevec_tensor_add_scalar_def pipevec_tensor_add_tensor_def)
qed

section \<open>Operands are left as they were\<close>

text \<open>
  Claim C9: no producing operation (copy, map, the elementwise tensor operations, the
  scalar operations, the inner product) changes the observable state (shape and
  \<^verbatim>\<open>get_data\<close> result) of any of its operands; in particular, after \<open>c = copy (t)\<close>, a
  \<^verbatim>\<open>set_data\<close> on \<open>c\<close> leaves \<open>get_data (t)\<close> unchanged. Whenever one of these operations
  returns, every object that existed before the call, the operands among them, is
  unchanged in the resulting heap and has the same observable state; the four
  arithmetic functions are the instances of the elementwise and the scalar
  operation at \<^verbatim>\<open>add\<close>, \<^verbatim>\<open>sub\<close>, \<^verbatim>\<open>mul\<close> and \<^verbatim>\<open>divide\<close>. A call that fails returns no tensor:
  its result carries no heap. (By the lemmas on the buffer pointer above, a tensor
  that one of these operations returns has a \<^verbatim>\<open>NULL\<close> buffer.)
\<close>

theorem producing_operations_keep_operands:
  "(pipevec_tensor_copy h t = Inr (h', r) \<longrightarrow> operands_kept h h')
   \<and> (pipevec_tensor_map h t func = Inr (h', r) \<longrightarrow> operands_kept h h')
   \<and> (pipevec_tensor_do_elementwise_op h t u binop = Inr (h', r) \<longrightarrow> operands_kept h h')
   \<and> (pipevec_tensor_do_scalar_op h t scalar binop = Inr (h', r) \<longrightarrow> operands_kept h h')
   \<and> (pipevec_tensor_inner_product_tensor h t u = Inr (h', r) \<longrightarrow> operands_kept h h')
   \<and> (pipevec_tensor_copy h t = Inr (h1, c)
        \<and> pipevec_tensor_set_data h1 c contents shape_arr = Inr h2
       \<longrightarrow> observable_state h2 t = observable_state h t)"
proof -
  have new: "operands_kept h x"
    if "others_kept (length (objs h)) (fst (g_object_new h)) x" for x
    using new_object_kept [OF that] by (simp add: prefix_operands_kept)
  have indep: "observable_state h2 t = observable_state h t"
    if cp: "pipevec_tensor_copy h t = Inr (h1, c)"
      and sd: "pipevec_tensor_set_data h1 c contents shape_arr = Inr h2"
  proof -
    from copy_kept [OF cp] have c: "c = length (objs h)"
      and k1: "others_kept (length (objs h)) (fst (g_object_new h)) h1"
      by auto
    from new_object_kept [OF k1] have pre: "take c (objs h1) = objs h" and lt: "c < length (objs h1)"
      using c by simp_all
    have t: "t < c"
      using cp c
      by (auto simp add: pipevec_tensor_copy_def and_then_eq_Inr
          pipevec_tensor_get_instance_private_def split: if_splits)
    from set_data_kept [OF sd] have eq: "(objs h2)[c := None] = (objs h1)[c := None]"
      by (simp add: others_kept_def)
    then have len: "length (objs h2) = length (objs h1)"
      by (metis length_list_update)
    have "objs h2 ! t = (objs h2)[c := None] ! t"
      using t by simp
    also have "\<dots> = objs h1 ! t"
      using t eq by simp
    also have "\<dots> = take c (objs h1) ! t"
      using t by simp
    also have "\<dots> = objs h ! t"
      by (simp add: pre)
    finally have nth: "objs h2 ! t = objs h ! t" .
    have "t < length (objs h)" and "t < length (objs h2)"
      using t c lt len by simp_all
    then show ?thesis
      using nth get_data_cong [of t h h2]
      by (simp add: observable_state_def pipevec_tensor_get_instance_private_def)
  qed
  have k_copy: "operands_kept h h'" if "pipevec_tensor_copy h t = Inr (h', r)"
    using copy_kept [OF that] by (auto intro: new)
  have k_map: "operands_kept h h'" if "pipevec_tensor_map h t func = Inr (h', r)"
    using map_kept [OF that] by (auto intro: new)
  have k_elementwise: "operands_kept h h'"
    if "pipevec_tensor_do_elementwise_op h t u binop = Inr (h', r)"
    using elementwise_kept [OF that] by (auto intro: new)
  have k_scalar: "operands_kept h h'"
    if "pipevec_tensor_do_scalar_op h t scalar binop = Inr (h', r)"
    using scalar_kept [OF that] by (auto intro: new)
  have k_inner: "operands_kept h h'"
    if "pipevec_tensor_inner_product_tensor h t u = Inr (h', r)"
    using inner_product_kept [OF that] by (auto intro: new)
  show ?thesis
    using k_copy k_map k_elementwise k_scalar k_inner indep by simp
qed

theorem producing_operations_keep_operands_witness:
  "pipevec_tensor_set_data fresh_heap 0 [] [0, 3] = Inr empty_tensor_heap
   \<and> pipevec_tensor_copy empty_tensor_heap 0 = Inr (copied_heap, 1)
   \<and> pipevec_tensor_map empty_tensor_heap 0 example_func = Inr (copied_heap, 1)
   \<and> pipevec_tensor_add_tensor empty_tensor_heap 0 0 = Inr (copied_heap, 1)
   \<and> pipevec_tensor_sub_scalar empty_tensor_heap 0 1 = Inr (copied_heap, 1)
   \<and> operands_kept empty_tensor_heap copied_heap
   \<and> pipevec_tensor_inner_product_tensor example_heap 0 1 = Inr (product_heap, 3)
   \<and> operands_kept example_heap product_heap
   \<and> pipevec_tensor_set_data copied_heap 1 [] [0, 5] =
       Inr (copied_heap\<lparr>objs := (objs copied_heap)
              [1 := Some \<lparr>array = None, shape = [0, 5], padded_shape = [0, 5]\<rparr>]\<rparr>)
   \<and> observable_state (copied_heap\<lparr>objs := (objs copied_heap)
              [1 := Some \<lparr>array = None, shape = [0, 5], padded_shape = [0, 5]\<rparr>]\<rparr>) 0
       = observable_state empty_tensor_heap 0"
proof -
  have reach: "pipevec_tensor_set_data fresh_heap 0 [] [0, 3] = Inr empty_tensor_heap"
    by (simp add: eval_defs)
  have cp: "pipevec_tensor_copy empty_tensor_heap 0 = Inr (copied_heap, 1)"
    by (simp add: eval_defs)
  have mp: "pipevec_tensor_map empty_tensor_heap 0 example_func = Inr (copied_heap, 1)"
    by (simp add: eval_defs)
  have ad: "pipevec_tensor_do_elementwise_op empty_tensor_heap 0 0 add = Inr (copied_heap, 1)"
    by (simp add: eval_defs)
  have sb: "pipevec_tensor_do_scalar_op empty_tensor_heap 0 1 sub = Inr (copied_heap, 1)"
    by (simp add: eval_defs)
  have ip: "pipevec_tensor_inner_product_tensor example_heap 0 1 = Inr (product_heap, 3)"
    by (simp add: eval_defs)
  have sd: "pipevec_tensor_set_data copied_heap 1 [] [0, 5] =
       Inr (copied_heap\<lparr>objs := (objs copied_heap)
              [1 := Some \<lparr>array = None, shape = [0, 5], padded_shape = [0, 5]\<rparr>]\<rparr>)"
    by (simp add: eval_defs)
  have k1: "operands_kept empty_tensor_heap copied_heap"
    using producing_operations_keep_operands [of empty_tensor_heap 0 copied_heap 1] cp
    by simp
  have k2: "operands_kept example_heap product_heap"
    using producing_operations_keep_operands [of example_heap 0 product_heap 3 _ 1] ip
    by simp
  have k3: "observable_state (copied_heap\<lparr>objs := (objs copied_heap)
              [1 := Some \<lparr>array = None, shape = [0, 5], padded_shape = [0, 5]\<rparr>]\<rparr>) 0
       = observable_state empty_tensor_heap 0"
    using producing_operations_keep_operands
      [of empty_tensor_heap 0 copied_heap 1 _ _ _ _ copied_heap 1 "[]" "[0, 5]"] cp sd
    by simp
  show ?thesis
    using reach cp mp ad sb ip sd k1 k2 k3
    by (simp add: pipevec_tensor_add_tensor_def pipevec_tensor_sub_scalar_def)
qed

end
